theory Spec2Isabelle
  imports Main
begin

section \<open>Monitoring\_Automation.py: data model\<close>

text \<open>
  The script keeps its whole state in module-level globals that the poll thread
  mutates in place. The record below has one field per global that the script reads or
  writes after start-up, under the global's own name. Two further fields stand for what
  the script emits: \<open>console\<close> collects every exception handed to \<open>click.echo\<close>, and
  \<open>outbox\<close> every message for which \<open>requests.post\<close> returned.
\<close>

datatype error =
    RequestException string
  | UnexpectedStatus nat
  | DatabaseError string
  | JSONError string
  | IndexError
  | TypeError
  | ValueError
  | OverflowError

datatype channel = AlertChannel | NotifChannel | SODChannel | HelpRequestChannel

text \<open>
  A webhook payload: the channel it goes to, the text of its head and its body. A body
  entry is a plain message or, in a report, the section of \<open>craft_report_section\<close>
  with its sidebar colour, title, content and content colour.
\<close>

datatype block =
    MessageBlock string
  | SectionBlock string string string string

record message =
  channel :: channel
  head :: string
  body :: "block list"

record state =
  SEND_ALERTS :: bool
  DDM_DOMAINS :: "string list"
  DDM_ERROR_LIST :: "string list"
  DDM_OFFLINE_LIST :: "string list"
  DDM_TEMP_LIST :: "string list"
  DDM_TEMP_OFFLINE_LIST :: "string list"
  ALERTS_TEMP_IGNORE :: "string list"
  ALERTS_NOTIF_LIST :: "string list"
  DDM_Total_Errors :: nat
  DDM_Missing_Devices :: nat
  SageVue_SessionID :: string
  SageVue_Error_List :: "string list"
  Sagevue_Total_Errors :: nat
  Sagevue_Missing_Devices :: nat
  Fusion_Error_List :: "string list list"
  Fusion_Offline_List :: "string list"
  Fusion_Help_Request_List :: "string list list"
  console :: "error list"
  outbox :: "message list"

text \<open>The globals as the module initialises them (lines 23, 53-64, 96-98, 119-121).\<close>

definition initial_state :: state where
  "initial_state =
     \<lparr>SEND_ALERTS = False, DDM_DOMAINS = [], DDM_ERROR_LIST = [], DDM_OFFLINE_LIST = [],
      DDM_TEMP_LIST = [], DDM_TEMP_OFFLINE_LIST = [], ALERTS_TEMP_IGNORE = [],
      ALERTS_NOTIF_LIST = [], DDM_Total_Errors = 0, DDM_Missing_Devices = 0,
      SageVue_SessionID = ''Placeholder'', SageVue_Error_List = [],
      Sagevue_Total_Errors = 0, Sagevue_Missing_Devices = 0, Fusion_Error_List = [],
      Fusion_Offline_List = [], Fusion_Help_Request_List = [], console = [], outbox = []\<rparr>"

definition BLACKLISTED_KEYWORDS :: "string list" where
  "BLACKLISTED_KEYWORDS = [''ExampleKeyword1'', ''Test Devices'']"

subsection \<open>Python primitives the script relies on\<close>

text \<open>\<open>sub in s\<close> on strings: \<open>sub\<close> occurs in \<open>s\<close> as a contiguous run.\<close>

fun starts_with :: "'a list \<Rightarrow> 'a list \<Rightarrow> bool" where
  "starts_with [] s = True"
| "starts_with (c # sub) [] = False"
| "starts_with (c # sub) (d # s) = (c = d \<and> starts_with sub s)"

fun py_in :: "'a list \<Rightarrow> 'a list \<Rightarrow> bool" where
  "py_in sub [] = (sub = [])"
| "py_in sub (d # s) = (starts_with sub (d # s) \<or> py_in sub s)"

text \<open>
  \<open>for x in L: if x not in T: L.remove(x)\<close>. CPython's list iterator keeps an index into
  the list it walks: each round it stops when the index has reached the current length,
  otherwise yields the element at the index and advances. \<open>L.remove(x)\<close> deletes the first
  element equal to \<open>x\<close>, so the elements behind it move one place down while the index
  still advances.
\<close>

function remove_loop :: "nat \<Rightarrow> 'a list \<Rightarrow> 'a list \<Rightarrow> 'a list" where
  "remove_loop i L T =
     (if i < length L
      then (if L ! i \<notin> set T then remove_loop (i + 1) (remove1 (L ! i) L) T
            else remove_loop (i + 1) L T)
      else L)"
  by pat_completeness auto
termination
proof (relation "measure (\<lambda>(i, L, T). length L - i)")
  show "wf (measure (\<lambda>(i, L, T). length L - i))"
    by simp
next
  fix i :: nat and L T :: "'a list"
  assume "i < length L"
  then have "length (remove1 (L ! i) L) = length L - 1"
    by (simp add: length_remove1)
  with \<open>i < length L\<close>
  show "((i + 1, remove1 (L ! i) L, T), (i, L, T)) \<in> measure (\<lambda>(i, L, T). length L - i)"
    by simp
next
  fix i :: nat and L T :: "'a list"
  assume "i < length L"
  then show "((i + 1, L, T), (i, L, T)) \<in> measure (\<lambda>(i, L, T). length L - i)"
    by simp
qed

declare remove_loop.simps [simp del]

text \<open>
  The loops that build a report string (lines 330-333, 415-420, 548-552, 611-614):
  every element, with a carriage return behind each one but the last.
\<close>

fun join_cr :: "string list \<Rightarrow> string" where
  "join_cr [] = []"
| "join_cr [x] = x"
| "join_cr (x # y # ys) = x @ [CHR 0x0D] @ join_cr (y # ys)"

subsection \<open>Outbound webhooks (lines 558-577)\<close>

text \<open>
  \<open>requests.post\<close> either raises (no connection, time-out) or returns a response with a
  status code, which the script never inspects. The webhook is a parameter of every
  function that sends.
\<close>

type_synonym http = "message \<Rightarrow> error + nat"

text \<open>
  A function that mutates globals and may raise returns \<open>Inl (e, s)\<close> when it raised \<open>e\<close>
  with the globals left as \<open>s\<close>, and \<open>Inr s\<close> when it returned.
\<close>

type_synonym outcome = "(error \<times> state) + state"

definition send_notification :: "http \<Rightarrow> string \<Rightarrow> state \<Rightarrow> outcome" where
  "send_notification post text s =
     (let m = \<lparr>channel = NotifChannel, head = ''Program Notification'', body = [MessageBlock text]\<rparr>
      in case post m of
           Inl e \<Rightarrow> Inl (e, s)
         | Inr code \<Rightarrow> Inr (s\<lparr>outbox := outbox s @ [m]\<rparr>))"

subsection \<open>Script methods (lines 186-223)\<close>

definition ALERT_NOTIF_DISABLE :: string where
  "ALERT_NOTIF_DISABLE = ''Alerting notifications are now disabled.''"

definition ALERT_NOTIF_ENABLE :: string where
  "ALERT_NOTIF_ENABLE = ''Alerting notifications are now enabled.''"

definition enable_alerts :: "http \<Rightarrow> bool \<Rightarrow> state \<Rightarrow> outcome" where
  "enable_alerts post send_notif s =
     (let s1 = s\<lparr>SEND_ALERTS := True\<rparr>
      in if send_notif then send_notification post ALERT_NOTIF_ENABLE s1 else Inr s1)"

definition disable_alerts :: "http \<Rightarrow> bool \<Rightarrow> state \<Rightarrow> outcome" where
  "disable_alerts post send_notif s =
     (let s1 = s\<lparr>SEND_ALERTS := False\<rparr>
      in if send_notif then send_notification post ALERT_NOTIF_DISABLE s1 else Inr s1)"

text \<open>
  Text is a HOL string, whose characters are the code points below 256 (Latin-1).
  \<open>str.isnumeric\<close> holds of a non-empty string whose characters are all numeric; below
  256 these are the ten digits, the superscripts U+00B9, U+00B2 and U+00B3 and the
  fractions U+00BC, U+00BD and U+00BE.
\<close>

definition is_digit :: "char \<Rightarrow> bool" where
  "is_digit c = (c \<in> set ''0123456789'')"

definition is_numeric :: "char \<Rightarrow> bool" where
  "is_numeric c =
     (is_digit c \<or> c \<in> set [CHR 0xB2, CHR 0xB3, CHR 0xB9, CHR 0xBC, CHR 0xBD, CHR 0xBE])"

definition isnumeric :: "string \<Rightarrow> bool" where
  "isnumeric t = (t \<noteq> [] \<and> list_all is_numeric t)"

text \<open>
  \<open>int\<close> at a string that \<open>str.isnumeric\<close> has accepted, which is where line 212 calls
  it. Such a string has no sign, blank or underscore, so \<open>int\<close> returns its decimal
  value when every character is a decimal digit and raises \<open>ValueError\<close> when one is
  not, as on a superscript or a fraction. An interpreter that limits the length of
  digit strings (\<open>sys.set_int_max_str_digits\<close>, 4300 by default where the limit exists)
  raises \<open>ValueError\<close> on a longer one; the limit 0 stands for none.
\<close>

definition py_int :: "nat \<Rightarrow> string \<Rightarrow> error + nat" where
  "py_int limit t =
     (if t = [] \<or> \<not> list_all is_digit t then Inl ValueError
      else if limit \<noteq> 0 \<and> limit < length t then Inl ValueError
      else Inr (foldl (\<lambda>n c. 10 * n + (of_char c - 48)) 0 t))"

text \<open>
  What \<open>mute_thread\<close> meets of the interpreter and the platform: the limit on digit
  strings, and \<open>time.sleep\<close>. Called with a number of seconds, \<open>time.sleep\<close> raises at
  once when the platform cannot wait that long (\<open>OverflowError\<close> for a length beyond
  its clock), or returns, by which time the other threads have changed the globals.
\<close>

record runtime =
  max_str_digits :: nat
  time_sleep :: "nat \<Rightarrow> state \<Rightarrow> outcome"

text \<open>
  \<open>mute_thread\<close> runs on a thread of its own. Both arguments come from
  \<open>request.args.get\<close>, which yields \<open>None\<close> for a parameter the request does not carry;
  \<open>str.isnumeric(None)\<close> and \<open>"..." + None\<close> raise \<open>TypeError\<close>. \<open>mute_try\<close> is the
  body of the \<open>try\<close> (lines 210-214): the keyword is appended before \<open>int\<close> and
  \<open>time.sleep\<close> are called, so it is still in the list when one of them raises, and
  \<open>remove\<close> raises \<open>ValueError\<close> when the keyword is no longer there. \<open>mute_thread\<close> is
  the whole function with its bare \<open>except\<close>, which catches whatever the body raised.
\<close>

definition mute_try :: "http \<Rightarrow> runtime \<Rightarrow> string option \<Rightarrow> string \<Rightarrow> state \<Rightarrow> outcome" where
  "mute_try post rt kw t s =
     (case kw of
        None \<Rightarrow> Inl (TypeError, s)
      | Some k \<Rightarrow>
          (case send_notification post (''Muting alerts containing '' @ k @ '' for '' @ t @ '' minutes.'') s of
             Inl x \<Rightarrow> Inl x
           | Inr s1 \<Rightarrow>
               (let s2 = s1\<lparr>ALERTS_TEMP_IGNORE := ALERTS_TEMP_IGNORE s1 @ [k]\<rparr>
                in case py_int (max_str_digits rt) t of
                     Inl e \<Rightarrow> Inl (e, s2)
                   | Inr minutes \<Rightarrow>
                       (case time_sleep rt (minutes * 60) s2 of
                          Inl x \<Rightarrow> Inl x
                        | Inr s3 \<Rightarrow>
                            if k \<in> set (ALERTS_TEMP_IGNORE s3)
                            then send_notification post
                                   (''Alerts containing '' @ k @ '' are no longer muted!'')
                                   (s3\<lparr>ALERTS_TEMP_IGNORE := remove1 k (ALERTS_TEMP_IGNORE s3)\<rparr>)
                            else Inl (ValueError, s3)))))"

definition mute_thread ::
  "http \<Rightarrow> runtime \<Rightarrow> string option \<times> string option \<Rightarrow> state \<Rightarrow> (error \<times> state) + (string \<times> state)" where
  "mute_thread post rt args s =
     (case snd args of
        None \<Rightarrow> Inl (TypeError, s)
      | Some t \<Rightarrow>
          if \<not> isnumeric t
          then (case fst args of
                  None \<Rightarrow> Inl (TypeError, s)
                | Some k \<Rightarrow>
                    (case send_notification post
                            (''Cannot mute alerts containing '' @ k @ '' - time parameter is invalid.'') s of
                       Inl x \<Rightarrow> Inl x
                     | Inr s1 \<Rightarrow> Inr (''Success'', s1)))
          else (case mute_try post rt (fst args) t s of
                  Inr s1 \<Rightarrow> Inr (''Success'', s1)
                | Inl (e, s1) \<Rightarrow>
                    (case fst args of
                       None \<Rightarrow> Inl (TypeError, s1)
                     | Some k \<Rightarrow>
                         (case send_notification post
                                 (''Unknown error muting alerts containing '' @ k @ ''.'') s1 of
                            Inl x \<Rightarrow> Inl x
                          | Inr s2 \<Rightarrow> Inr (''Error'', s2)))))"

definition add_to_alert_notif_push :: "string \<Rightarrow> string \<Rightarrow> string \<Rightarrow> state \<Rightarrow> state" where
  "add_to_alert_notif_push category device msg s =
     (if \<not> list_ex (\<lambda>ext. py_in ext device) (ALERTS_TEMP_IGNORE s)
         \<and> \<not> list_ex (\<lambda>ext. py_in ext msg) (ALERTS_TEMP_IGNORE s)
      then s\<lparr>ALERTS_NOTIF_LIST :=
               ALERTS_NOTIF_LIST s @ [category @ '' - '' @ device @ '' - '' @ msg]\<rparr>
      else s)"

section \<open>Dante Domain Manager (lines 264-356)\<close>

record ddm_device =
  device_name :: string
  connectivity :: string
  subscriptions :: string
  latency :: string
  clocking :: string

text \<open>
  One of the three blocks for a subscription, latency or clocking error (lines 287-292,
  295-300, 303-308), which differ in the status field they test and in the text.
\<close>

definition ddm_error_block :: "string \<Rightarrow> string \<Rightarrow> string \<Rightarrow> string \<Rightarrow> state \<Rightarrow> state" where
  "ddm_error_block status domain dev_name text s =
     (if status = ''ERROR''
      then (let error_string = domain @ '' - '' @ dev_name @ text;
                s1 = s\<lparr>DDM_TEMP_LIST := DDM_TEMP_LIST s @ [error_string]\<rparr>
            in if error_string \<notin> set (DDM_ERROR_LIST s1)
               then add_to_alert_notif_push ''DDM'' domain (dev_name @ text)
                      (s1\<lparr>DDM_ERROR_LIST := DDM_ERROR_LIST s1 @ [error_string]\<rparr>)
               else s1)
      else s)"

text \<open>
  The body of the loop over the devices of a domain (lines 279-308). The connectivity
  test stands one column left of the statements that follow it, so all of them, the
  three other tests included, form its body: a device whose connectivity is not
  \<open>"ERROR"\<close> is skipped whole.
\<close>

definition ddm_device_body :: "string \<Rightarrow> ddm_device \<Rightarrow> state \<Rightarrow> state" where
  "ddm_device_body domain device s =
     (if connectivity device = ''ERROR''
      then (let connectivity_string = domain @ '' - '' @ device_name device @ '' is offline.'';
                s1 = s\<lparr>DDM_TEMP_OFFLINE_LIST := DDM_TEMP_OFFLINE_LIST s @ [connectivity_string]\<rparr>;
                s2 = (if connectivity_string \<notin> set (DDM_OFFLINE_LIST s1)
                      then add_to_alert_notif_push ''DDM'' domain (device_name device @ '' is offline.'')
                             (s1\<lparr>DDM_OFFLINE_LIST := DDM_OFFLINE_LIST s1 @ [connectivity_string]\<rparr>)
                      else s1);
                s3 = ddm_error_block (subscriptions device) domain (device_name device)
                       '' has a subscription error.'' s2;
                s4 = ddm_error_block (latency device) domain (device_name device)
                       '' has a latency error.'' s3
            in ddm_error_block (clocking device) domain (device_name device)
                 '' has a clocking error.'' s4)
      else s)"

fun ddm_devices_loop :: "string \<Rightarrow> ddm_device list \<Rightarrow> state \<Rightarrow> state" where
  "ddm_devices_loop domain [] s = s"
| "ddm_devices_loop domain (device # devices) s =
     ddm_devices_loop domain devices (ddm_device_body domain device s)"

text \<open>
  \<open>run_ddm_query(getDevices, 200, variables)\<close> raises on any status but 200 and on a
  failed request; \<open>query domain\<close> is its outcome for one domain. The loop over the
  domains sits in a \<open>try\<close> whose handler echoes the exception (lines 269-311), so a
  failed query ends the loop and keeps what the earlier domains have written.
\<close>

type_synonym ddm_query = "string \<Rightarrow> error + ddm_device list"

fun ddm_domains_loop :: "ddm_query \<Rightarrow> string list \<Rightarrow> state \<Rightarrow> state" where
  "ddm_domains_loop query [] s = s"
| "ddm_domains_loop query (domain # domains) s =
     (case query domain of
        Inl e \<Rightarrow> s\<lparr>console := console s @ [e]\<rparr>
      | Inr devices \<Rightarrow> ddm_domains_loop query domains (ddm_devices_loop domain devices s))"

text \<open>Lines 267-311: the temporary lists are cleared, then the domains are walked.\<close>

definition ddm_scan :: "ddm_query \<Rightarrow> state \<Rightarrow> state" where
  "ddm_scan query s =
     ddm_domains_loop query (DDM_DOMAINS s) (s\<lparr>DDM_TEMP_LIST := [], DDM_TEMP_OFFLINE_LIST := []\<rparr>)"

text \<open>Lines 314-321: the two loops that drop what is no longer reported.\<close>

definition ddm_prune :: "state \<Rightarrow> state" where
  "ddm_prune s =
     (let s1 = s\<lparr>DDM_ERROR_LIST := remove_loop 0 (DDM_ERROR_LIST s) (DDM_TEMP_LIST s)\<rparr>
      in s1\<lparr>DDM_OFFLINE_LIST := remove_loop 0 (DDM_OFFLINE_LIST s1) (DDM_TEMP_OFFLINE_LIST s1)\<rparr>)"

text \<open>Lines 324-325.\<close>

definition ddm_gauges :: "state \<Rightarrow> state" where
  "ddm_gauges s =
     s\<lparr>DDM_Missing_Devices := length (DDM_OFFLINE_LIST s),
       DDM_Total_Errors := length (DDM_ERROR_LIST s)\<rparr>"

definition ddm_thread :: "ddm_query \<Rightarrow> state \<Rightarrow> state" where
  "ddm_thread query s = ddm_gauges (ddm_prune (ddm_scan query s))"

definition get_ddm_status_message :: "state \<Rightarrow> string" where
  "get_ddm_status_message s =
     (let temp_string = join_cr (DDM_ERROR_LIST s) @ join_cr (DDM_OFFLINE_LIST s)
      in if length (DDM_ERROR_LIST s) = 0 \<and> length (DDM_OFFLINE_LIST s) = 0
         then ''No errors to report.''
         else temp_string)"

text \<open>
  \<open>get_dante_domains\<close> (lines 344-348): the list is cleared before the query runs, so
  a query that raises leaves it empty.
\<close>

definition get_dante_domains :: "(error + string list) \<Rightarrow> state \<Rightarrow> outcome" where
  "get_dante_domains domains_query s =
     (let s1 = s\<lparr>DDM_DOMAINS := []\<rparr>
      in case domains_query of
           Inl e \<Rightarrow> Inl (e, s1)
         | Inr names \<Rightarrow> Inr (s1\<lparr>DDM_DOMAINS := DDM_DOMAINS s1 @ names\<rparr>))"

section \<open>Biamp SageVue (lines 360-422)\<close>

text \<open>
  A system of the systems endpoint with the three keys the script reads; a fault is
  given by its \<open>Message\<close>, the one key read from it.
\<close>

record sagevue_system =
  Status :: string
  Description :: string
  Faults :: "string list"

text \<open>
  What the four requests of one cycle answer: the session check (line 364, a status
  code), the login (lines 368-369, the \<open>LoginId\<close>), the systems request (line 372) with
  its decoded \<open>Systems\<close> (line 376), and the devices request (line 373) with the length
  of its decoded \<open>Errors\<close> (line 402). Each of them may raise instead.
\<close>

record sagevue_api =
  auth_query :: "error + nat"
  login :: "error + string"
  systems_request :: "error + (error + sagevue_system list)"
  devices_request :: "error + (error + nat)"

text \<open>Lines 384-393, with the local \<open>temp_error_list\<close> carried beside the globals.\<close>

fun sagevue_faults_loop ::
  "sagevue_system \<Rightarrow> string list \<Rightarrow> string list \<times> state \<Rightarrow> string list \<times> state" where
  "sagevue_faults_loop system [] (temp_error_list, s) = (temp_error_list, s)"
| "sagevue_faults_loop system (fault # faults) (temp_error_list, s) =
     (let error_id = Description system @ '' - '' @ fault;
          s1 = (if error_id \<notin> set (SageVue_Error_List s)
                   \<and> \<not> py_in ''DAN1'' fault \<and> \<not> py_in ''NTP'' fault
                then add_to_alert_notif_push ''SageVue'' (Description system) fault
                       (s\<lparr>SageVue_Error_List := SageVue_Error_List s @ [error_id]\<rparr>)
                else s)
      in sagevue_faults_loop system faults (temp_error_list @ [error_id], s1))"

fun sagevue_systems_loop ::
  "sagevue_system list \<Rightarrow> string list \<times> state \<Rightarrow> string list \<times> state" where
  "sagevue_systems_loop [] ts = ts"
| "sagevue_systems_loop (system # systems) ts =
     sagevue_systems_loop systems
       (if Status system \<noteq> ''Green'' then sagevue_faults_loop system (Faults system) ts else ts)"

text \<open>Lines 378-401: the scan, the loop that drops what is gone, the first gauge.\<close>

definition sagevue_scan :: "sagevue_system list \<Rightarrow> state \<Rightarrow> string list \<times> state" where
  "sagevue_scan systems s = sagevue_systems_loop systems ([], s)"

definition sagevue_diff :: "sagevue_system list \<Rightarrow> state \<Rightarrow> state" where
  "sagevue_diff systems s =
     (let (temp_error_list, s1) = sagevue_scan systems s;
          s2 = s1\<lparr>SageVue_Error_List := remove_loop 0 (SageVue_Error_List s1) temp_error_list\<rparr>
      in s2\<lparr>Sagevue_Total_Errors := length (SageVue_Error_List s2)\<rparr>)"

definition echo :: "error \<Rightarrow> state \<Rightarrow> state" where
  "echo e s = s\<lparr>console := console s @ [e]\<rparr>"

text \<open>
  Lines 364-369: the session check and, on a 400 or 401, the login that replaces the
  session id.
\<close>

definition sagevue_session :: "sagevue_api \<Rightarrow> state \<Rightarrow> error + state" where
  "sagevue_session api s =
     (case auth_query api of
        Inl e \<Rightarrow> Inl e
      | Inr status_code \<Rightarrow>
          if status_code = 400 \<or> status_code = 401
          then (case login api of
                  Inl e \<Rightarrow> Inl e
                | Inr login_id \<Rightarrow> Inr (s\<lparr>SageVue_SessionID := login_id\<rparr>))
          else Inr s)"

text \<open>
  The whole function sits in one \<open>try\<close> whose handler echoes the exception. A failed
  login leaves the globals as they were; the devices answer is decoded last (line 402),
  after the fault list and the first gauge have been written.
\<close>

definition sage_vue_thread :: "sagevue_api \<Rightarrow> state \<Rightarrow> state" where
  "sage_vue_thread api s =
     (case sagevue_session api s of
        Inl e \<Rightarrow> echo e s
      | Inr s1 \<Rightarrow>
          (case systems_request api of
             Inl e \<Rightarrow> echo e s1
           | Inr api_systems \<Rightarrow>
               (case devices_request api of
                  Inl e \<Rightarrow> echo e s1
                | Inr api_devices \<Rightarrow>
                    (case api_systems of
                       Inl e \<Rightarrow> echo e s1
                     | Inr systems \<Rightarrow>
                         (let s2 = sagevue_diff systems s1
                          in case api_devices of
                               Inl e \<Rightarrow> echo e s2
                             | Inr errors \<Rightarrow> s2\<lparr>Sagevue_Missing_Devices := errors\<rparr>)))))"

definition get_sage_vue_status_message :: "state \<Rightarrow> string" where
  "get_sage_vue_status_message s =
     (if length (SageVue_Error_List s) = 0 then ''No errors to report.''
      else join_cr (SageVue_Error_List s))"

section \<open>Crestron Fusion (lines 427-553)\<close>

text \<open>
  The database of one cycle: whether \<open>pymssql.connect\<close> raises, and what each query
  answers. A room is the Python list the script builds, \<open>[RoomName, RoomID]\<close> with the
  rows of the message query appended, so \<open>room[2]\<close> exists only when that query
  returned a row.
\<close>

record fusion_db =
  connect :: "error option"
  offline_query :: "error + string list"
  error_query :: "error + (string \<times> string) list"
  error_message_query :: "string \<Rightarrow> error + string list"
  help_query :: "error + (string \<times> string) list"
  help_message_query :: "string \<Rightarrow> error + string list"

definition send_help_request :: "http \<Rightarrow> string \<Rightarrow> string \<Rightarrow> state \<Rightarrow> outcome" where
  "send_help_request post room msg s =
     (if SEND_ALERTS s
      then (let m = \<lparr>channel = HelpRequestChannel, head = ''Help Request Alert'',
                      body = [MessageBlock (''Room - '' @ room),
                              MessageBlock (''Customer says: '' @ msg)]\<rparr>
            in case post m of
                 Inl e \<Rightarrow> Inl (e, s)
               | Inr code \<Rightarrow> Inr (s\<lparr>outbox := outbox s @ [m]\<rparr>))
      else Inr s)"

text \<open>Lines 441-451, with the local \<open>temp_offline\<close> carried beside the globals.\<close>

fun fusion_offline_loop :: "string list \<Rightarrow> string list \<times> state \<Rightarrow> string list \<times> state" where
  "fusion_offline_loop [] (temp_offline, s) = (temp_offline, s)"
| "fusion_offline_loop (room # rooms) (temp_offline, s) =
     (let s1 = (if room \<notin> set (Fusion_Offline_List s)
                then (if \<not> list_ex (\<lambda>ext. py_in ext room) BLACKLISTED_KEYWORDS
                      then add_to_alert_notif_push ''Fusion'' room ''Room has gone offline''
                             (s\<lparr>Fusion_Offline_List := Fusion_Offline_List s @ [room]\<rparr>)
                      else s)
                else s)
      in fusion_offline_loop rooms (temp_offline @ [room], s1))"

text \<open>Lines 439-456.\<close>

definition fusion_offline_phase :: "string list \<Rightarrow> state \<Rightarrow> state" where
  "fusion_offline_phase rooms s =
     (let (temp_offline, s1) = fusion_offline_loop rooms ([], s)
      in s1\<lparr>Fusion_Offline_List := remove_loop 0 (Fusion_Offline_List s1) temp_offline\<rparr>)"

text \<open>
  Lines 464-478 and 503-517: \<open>temp_error\<close> is filled with \<open>[RoomName, RoomID]\<close> for
  every row, then each room gets the rows of its message query appended.
\<close>

fun fusion_attach ::
  "(string \<Rightarrow> error + string list) \<Rightarrow> string list list \<Rightarrow> error + string list list" where
  "fusion_attach message_query [] = Inr []"
| "fusion_attach message_query (room # rooms) =
     (case message_query (room ! 1) of
        Inl e \<Rightarrow> Inl e
      | Inr rows \<Rightarrow>
          (case fusion_attach message_query rooms of
             Inl e \<Rightarrow> Inl e
           | Inr rest \<Rightarrow> Inr ((room @ rows) # rest)))"

definition fusion_rooms ::
  "(string \<Rightarrow> error + string list) \<Rightarrow> (string \<times> string) list \<Rightarrow> error + string list list" where
  "fusion_rooms message_query rows =
     fusion_attach message_query (map (\<lambda>(room_name, room_id). [room_name, room_id]) rows)"

text \<open>Lines 485-489; \<open>room[2]\<close> raises \<open>IndexError\<close> on a room without a message row.\<close>

fun fusion_error_loop :: "string list list \<Rightarrow> state \<Rightarrow> outcome" where
  "fusion_error_loop [] s = Inr s"
| "fusion_error_loop (room # rooms) s =
     (if room \<notin> set (Fusion_Error_List s)
      then (if length room \<le> 2 then Inl (IndexError, s)
            else if \<not> py_in ''1:notice'' (room ! 2) \<and> \<not> py_in ''0:ok'' (room ! 2)
            then fusion_error_loop rooms
                   (add_to_alert_notif_push ''Fusion'' (room ! 0) (room ! 2)
                      (s\<lparr>Fusion_Error_List := Fusion_Error_List s @ [room]\<rparr>))
            else fusion_error_loop rooms s)
      else fusion_error_loop rooms s)"

text \<open>Lines 485-494.\<close>

definition fusion_error_phase :: "string list list \<Rightarrow> state \<Rightarrow> outcome" where
  "fusion_error_phase temp_error s =
     (case fusion_error_loop temp_error s of
        Inl x \<Rightarrow> Inl x
      | Inr s1 \<Rightarrow> Inr (s1\<lparr>Fusion_Error_List := remove_loop 0 (Fusion_Error_List s1) temp_error\<rparr>))"

text \<open>Lines 523-526; the room is stored before \<open>room[2]\<close> is read.\<close>

fun fusion_help_loop :: "http \<Rightarrow> string list list \<Rightarrow> state \<Rightarrow> outcome" where
  "fusion_help_loop post [] s = Inr s"
| "fusion_help_loop post (room # rooms) s =
     (if room \<notin> set (Fusion_Help_Request_List s)
      then (let s1 = s\<lparr>Fusion_Help_Request_List := Fusion_Help_Request_List s @ [room]\<rparr>
            in if length room \<le> 2 then Inl (IndexError, s1)
               else (case send_help_request post (room ! 0) (room ! 2) s1 of
                       Inl x \<Rightarrow> Inl x
                     | Inr s2 \<Rightarrow> fusion_help_loop post rooms s2))
      else fusion_help_loop post rooms s)"

text \<open>Lines 523-529.\<close>

definition fusion_help_phase :: "http \<Rightarrow> string list list \<Rightarrow> state \<Rightarrow> outcome" where
  "fusion_help_phase post temp_error s =
     (case fusion_help_loop post temp_error s of
        Inl x \<Rightarrow> Inl x
      | Inr s1 \<Rightarrow>
          Inr (s1\<lparr>Fusion_Help_Request_List :=
                    remove_loop 0 (Fusion_Help_Request_List s1) temp_error\<rparr>))"

definition fusion_thread :: "http \<Rightarrow> fusion_db \<Rightarrow> state \<Rightarrow> outcome" where
  "fusion_thread post db s =
     (case connect db of
        Some e \<Rightarrow> Inl (e, s)
      | None \<Rightarrow>
          (case offline_query db of
             Inl e \<Rightarrow> Inl (e, s)
           | Inr rooms \<Rightarrow>
               (let s1 = fusion_offline_phase rooms s
                in case error_query db of
                     Inl e \<Rightarrow> Inl (e, s1)
                   | Inr error_rows \<Rightarrow>
                       (case fusion_rooms (error_message_query db) error_rows of
                          Inl e \<Rightarrow> Inl (e, s1)
                        | Inr temp_error \<Rightarrow>
                            (case fusion_error_phase temp_error s1 of
                               Inl x \<Rightarrow> Inl x
                             | Inr s2 \<Rightarrow>
                                 (case help_query db of
                                    Inl e \<Rightarrow> Inl (e, s2)
                                  | Inr help_rows \<Rightarrow>
                                      (case fusion_rooms (help_message_query db) help_rows of
                                         Inl e \<Rightarrow> Inl (e, s2)
                                       | Inr temp_help \<Rightarrow>
                                           fusion_help_phase post temp_help s2)))))))"

text \<open>
  Lines 532-553. The stored rooms are read at index 2, which every room the error
  loop stored has.
\<close>

fun fusion_error_lines :: "string list list \<Rightarrow> error + string list" where
  "fusion_error_lines [] = Inr []"
| "fusion_error_lines (room # rooms) =
     (if length room \<le> 2 then Inl IndexError
      else (case fusion_error_lines rooms of
              Inl e \<Rightarrow> Inl e
            | Inr rest \<Rightarrow> Inr ((room ! 0 @ '' - '' @ room ! 2) # rest)))"

definition get_fusion_status_message :: "state \<Rightarrow> error + string" where
  "get_fusion_status_message s =
     (if length (Fusion_Error_List s) = 0 \<and> length (Fusion_Offline_List s) = 0
      then Inr ''No errors to report.''
      else (case fusion_error_lines (Fusion_Error_List s) of
              Inl e \<Rightarrow> Inl e
            | Inr temp_error \<Rightarrow>
                Inr (join_cr (temp_error
                       @ map (\<lambda>room. room @ '' - '' @ ''Room is currently offline'')
                           (Fusion_Offline_List s)))))"

section \<open>Batched alerts, the report and the poll loop (lines 159-179, 607-682)\<close>

text \<open>\<open>str(n)\<close> on a length: the decimal digits of \<open>n\<close>.\<close>

fun py_str :: "nat \<Rightarrow> string" where
  "py_str n =
     (if n < 10 then [char_of (48 + n)] else py_str (n div 10) @ [char_of (48 + n mod 10)])"

declare py_str.simps [simp del]

text \<open>
  \<open>send_alert_notif\<close> (lines 607-639). The list is cleared by the statement after the
  \<open>if\<close>, which a raising \<open>requests.post\<close> does not reach.
\<close>

definition send_alert_notif :: "http \<Rightarrow> state \<Rightarrow> outcome" where
  "send_alert_notif post s =
     (if SEND_ALERTS s \<and> length (ALERTS_NOTIF_LIST s) > 0
      then (let temp_string = join_cr (ALERTS_NOTIF_LIST s);
                m = \<lparr>channel = AlertChannel, head = ''Device Alert'',
                     body = [MessageBlock
                               (py_str (length (ALERTS_NOTIF_LIST s)) @ '' new device alert''
                                  @ (if length (ALERTS_NOTIF_LIST s) > 1 then ''s.'' else ''.'')),
                             MessageBlock temp_string]\<rparr>
            in case post m of
                 Inl e \<Rightarrow> Inl (e, s)
               | Inr code \<Rightarrow> Inr (s\<lparr>outbox := outbox s @ [m], ALERTS_NOTIF_LIST := []\<rparr>))
      else Inr (s\<lparr>ALERTS_NOTIF_LIST := []\<rparr>))"

definition craft_report_section :: "string \<Rightarrow> string \<Rightarrow> block" where
  "craft_report_section service content =
     SectionBlock
       (if content = ''No errors to report.'' \<or> content = ''No mics with low batteries.''
        then ''#00FF00'' else ''#C107EB'')
       (''--- '' @ service @ '' --- '')
       content
       (if content = ''No errors to report.'' \<or> content = ''No mics with low batteries.''
        then ''#00FF00'' else ''#C107EB'')"

text \<open>\<open>run_report\<close> (lines 664-682); \<open>today\<close> is \<open>str(datetime.date.today())\<close>.\<close>

definition run_report :: "http \<Rightarrow> string \<Rightarrow> state \<Rightarrow> outcome" where
  "run_report post today s =
     (let sagevue = get_sage_vue_status_message s;
          ddm = get_ddm_status_message s
      in case get_fusion_status_message s of
           Inl e \<Rightarrow> Inl (e, s)
         | Inr fusion \<Rightarrow>
             (let m = \<lparr>channel = SODChannel, head = ''SoD Report - '' @ today,
                       body = [craft_report_section ''SageVue'' sagevue,
                               craft_report_section ''Dante Domain Manager'' ddm,
                               craft_report_section ''Fusion'' fusion]\<rparr>
              in case post m of
                   Inl e \<Rightarrow> Inl (e, s)
                 | Inr code \<Rightarrow> Inr (s\<lparr>outbox := outbox s @ [m]\<rparr>)))"

text \<open>
  The four daily jobs registered with \<open>schedule\<close> (lines 688-697). \<open>run_pending\<close> runs
  the jobs that are due one after the other and lets an exception of a job through.
\<close>

datatype job = FetchDomains | EnableAlerts | RunReport | DisableAlerts

text \<open>What the outside world answers during one round of the poll loop.\<close>

record cycle =
  fusion_answers :: fusion_db
  sagevue_answers :: sagevue_api
  ddm_answers :: ddm_query
  domains_answer :: "error + string list"
  webhook :: http
  date_today :: string
  due_jobs :: "job list"

definition run_job :: "cycle \<Rightarrow> job \<Rightarrow> state \<Rightarrow> outcome" where
  "run_job c j s =
     (case j of
        FetchDomains \<Rightarrow> get_dante_domains (domains_answer c) s
      | EnableAlerts \<Rightarrow> enable_alerts (webhook c) False s
      | RunReport \<Rightarrow> run_report (webhook c) (date_today c) s
      | DisableAlerts \<Rightarrow> disable_alerts (webhook c) False s)"

fun run_pending :: "cycle \<Rightarrow> job list \<Rightarrow> state \<Rightarrow> outcome" where
  "run_pending c [] s = Inr s"
| "run_pending c (j # js) s =
     (case run_job c j s of
        Inl x \<Rightarrow> Inl x
      | Inr s1 \<Rightarrow> run_pending c js s1)"

text \<open>
  Lines 165-170: the three backends inside one \<open>try\<close>. \<open>sage_vue_thread\<close> and
  \<open>ddm_thread\<close> handle their own exceptions, \<open>fusion_thread\<close> does not, so what it
  raises reaches this handler and the two calls after it are not made.
\<close>

definition poll_backends :: "cycle \<Rightarrow> state \<Rightarrow> state" where
  "poll_backends c s =
     (case fusion_thread (webhook c) (fusion_answers c) s of
        Inl (e, s1) \<Rightarrow> echo e s1
      | Inr s1 \<Rightarrow> ddm_thread (ddm_answers c) (sage_vue_thread (sagevue_answers c) s1))"

text \<open>One round of the \<open>while True\<close> (lines 165-179).\<close>

definition prog_cycle :: "cycle \<Rightarrow> state \<Rightarrow> outcome" where
  "prog_cycle c s =
     (case send_alert_notif (webhook c) (poll_backends c s) of
        Inl x \<Rightarrow> Inl x
      | Inr s1 \<Rightarrow> run_pending c (due_jobs c) s1)"

text \<open>
  The loop never ends by itself. Run against the answers of finitely many rounds it
  returns \<open>Inr\<close> with the globals it has reached when every round came back, and
  \<open>Inl\<close> when a round raised, which ends the poll thread.
\<close>

fun prog_loop :: "cycle list \<Rightarrow> state \<Rightarrow> outcome" where
  "prog_loop [] s = Inr s"
| "prog_loop (c # cs) s =
     (case prog_cycle c s of
        Inl x \<Rightarrow> Inl x
      | Inr s1 \<Rightarrow> prog_loop cs s1)"

definition prog_thread :: "(error + string list) \<Rightarrow> cycle list \<Rightarrow> state \<Rightarrow> outcome" where
  "prog_thread start_domains cycles s =
     (case get_dante_domains start_domains s of
        Inl x \<Rightarrow> Inl x
      | Inr s1 \<Rightarrow> prog_loop cycles s1)"

section \<open>Faults, keys and alert lines\<close>

text \<open>
  The scanning loops above are the code. To state what they compute, the faults a cycle
  reports are listed here as plain values, backend by backend, together with the key
  under which the script stores a fault, the line it queues for it and the test that
  decides whether a muted keyword hides it. Each definition repeats an expression of
  the source; the lemmas of the next sections prove that the loops agree with them.
\<close>

text \<open>
  The test of \<open>add_to_alert_notif_push\<close> (line 222): some muted keyword occurs in the
  device argument or in the message argument.
\<close>

definition muted :: "string list \<Rightarrow> string \<Rightarrow> string \<Rightarrow> bool" where
  "muted ignore device msg =
     (list_ex (\<lambda>ext. py_in ext device) ignore \<or> list_ex (\<lambda>ext. py_in ext msg) ignore)"

text \<open>
  The faults of a list of reports that a scan hands on as newly active, in the order of
  the scan: a fault is taken when its key is not among the keys \<open>S\<close> stored so far, and
  its key counts as stored from then on.
\<close>

fun fresh :: "('o \<Rightarrow> 'k) \<Rightarrow> 'k set \<Rightarrow> 'o list \<Rightarrow> 'o list" where
  "fresh key S [] = []"
| "fresh key S (x # xs) =
     (if key x \<in> S then fresh key S xs else x # fresh key (insert (key x) S) xs)"

subsection \<open>Dante Domain Manager\<close>

text \<open>
  A fault of the Dante Domain Manager: whether it belongs to the offline list (\<open>True\<close>)
  or to the error list (\<open>False\<close>), the domain, and the text that follows the domain in
  the stored string (lines 280, 288, 296, 304), which is also the message passed to
  \<open>add_to_alert_notif_push\<close> with the domain as device (lines 284, 292, 300, 308).
\<close>

type_synonym ddm_fault = "bool \<times> string \<times> string"

definition ddm_key :: "ddm_fault \<Rightarrow> string" where
  "ddm_key f = fst (snd f) @ '' - '' @ snd (snd f)"

definition ddm_class_key :: "ddm_fault \<Rightarrow> bool \<times> string" where
  "ddm_class_key f = (fst f, ddm_key f)"

definition ddm_line :: "ddm_fault \<Rightarrow> string" where
  "ddm_line f = ''DDM'' @ '' - '' @ fst (snd f) @ '' - '' @ snd (snd f)"

definition ddm_unmuted :: "string list \<Rightarrow> ddm_fault \<Rightarrow> bool" where
  "ddm_unmuted ignore f = (\<not> muted ignore (fst (snd f)) (snd (snd f)))"

text \<open>What both stored lists hold, each key tagged with its list.\<close>

definition ddm_stored :: "state \<Rightarrow> (bool \<times> string) set" where
  "ddm_stored s = Pair True ` set (DDM_OFFLINE_LIST s) \<union> Pair False ` set (DDM_ERROR_LIST s)"

text \<open>
  The faults one device contributes, in the order in which \<open>ddm_device_body\<close> visits
  them, and the faults a walk over the domains meets before a query fails
  (\<open>ddm_failure\<close> is the exception that ends the walk, if any).
\<close>

definition ddm_faults_of :: "string \<Rightarrow> ddm_device \<Rightarrow> ddm_fault list" where
  "ddm_faults_of domain device =
     (if connectivity device = ''ERROR''
      then [(True, domain, device_name device @ '' is offline.'')]
           @ (if subscriptions device = ''ERROR''
              then [(False, domain, device_name device @ '' has a subscription error.'')] else [])
           @ (if latency device = ''ERROR''
              then [(False, domain, device_name device @ '' has a latency error.'')] else [])
           @ (if clocking device = ''ERROR''
              then [(False, domain, device_name device @ '' has a clocking error.'')] else [])
      else [])"

fun ddm_observed :: "ddm_query \<Rightarrow> string list \<Rightarrow> ddm_fault list" where
  "ddm_observed query [] = []"
| "ddm_observed query (domain # domains) =
     (case query domain of
        Inl e \<Rightarrow> []
      | Inr devices \<Rightarrow> concat (map (ddm_faults_of domain) devices) @ ddm_observed query domains)"

fun ddm_failure :: "ddm_query \<Rightarrow> string list \<Rightarrow> error list" where
  "ddm_failure query [] = []"
| "ddm_failure query (domain # domains) =
     (case query domain of
        Inl e \<Rightarrow> [e]
      | Inr devices \<Rightarrow> ddm_failure query domains)"

text \<open>
  The newly active faults of a cycle, and the globals after a list of reports has been
  processed, in closed form.
\<close>

definition ddm_new :: "ddm_query \<Rightarrow> state \<Rightarrow> ddm_fault list" where
  "ddm_new query s = fresh ddm_class_key (ddm_stored s) (ddm_observed query (DDM_DOMAINS s))"

definition ddm_apply :: "ddm_fault list \<Rightarrow> state \<Rightarrow> state" where
  "ddm_apply obs s =
     s\<lparr>DDM_TEMP_OFFLINE_LIST := DDM_TEMP_OFFLINE_LIST s @ map ddm_key (filter fst obs),
       DDM_TEMP_LIST := DDM_TEMP_LIST s @ map ddm_key (filter (\<lambda>f. \<not> fst f) obs),
       DDM_OFFLINE_LIST := DDM_OFFLINE_LIST s
          @ map ddm_key (filter fst (fresh ddm_class_key (ddm_stored s) obs)),
       DDM_ERROR_LIST := DDM_ERROR_LIST s
          @ map ddm_key (filter (\<lambda>f. \<not> fst f) (fresh ddm_class_key (ddm_stored s) obs)),
       ALERTS_NOTIF_LIST := ALERTS_NOTIF_LIST s
          @ map ddm_line (filter (ddm_unmuted (ALERTS_TEMP_IGNORE s))
                            (fresh ddm_class_key (ddm_stored s) obs))\<rparr>"

subsection \<open>SageVue\<close>

text \<open>
  A SageVue fault is the description of its system and its message. Line 385 builds
  the key, line 391 admits a fault to the stored list and to the notifier when its
  message holds neither "DAN1" nor "NTP", and line 393 passes the description as device.
  \<open>sagevue_observed\<close> lists the faults of the systems that are not "Green" (lines
  382-384).
\<close>

type_synonym sagevue_fault = "string \<times> string"

definition sagevue_key :: "sagevue_fault \<Rightarrow> string" where
  "sagevue_key f = fst f @ '' - '' @ snd f"

definition sagevue_admitted :: "sagevue_fault \<Rightarrow> bool" where
  "sagevue_admitted f = (\<not> py_in ''DAN1'' (snd f) \<and> \<not> py_in ''NTP'' (snd f))"

definition sagevue_line :: "sagevue_fault \<Rightarrow> string" where
  "sagevue_line f = ''SageVue'' @ '' - '' @ fst f @ '' - '' @ snd f"

definition sagevue_unmuted :: "string list \<Rightarrow> sagevue_fault \<Rightarrow> bool" where
  "sagevue_unmuted ignore f = (\<not> muted ignore (fst f) (snd f))"

definition sagevue_observed :: "sagevue_system list \<Rightarrow> sagevue_fault list" where
  "sagevue_observed systems =
     concat (map (\<lambda>system. if Status system \<noteq> ''Green''
                             then map (Pair (Description system)) (Faults system) else [])
               systems)"

definition sagevue_new :: "state \<Rightarrow> sagevue_fault list \<Rightarrow> sagevue_fault list" where
  "sagevue_new s obs = fresh sagevue_key (set (SageVue_Error_List s)) (filter sagevue_admitted obs)"

definition sagevue_apply ::
  "sagevue_fault list \<Rightarrow> string list \<times> state \<Rightarrow> string list \<times> state" where
  "sagevue_apply obs ts =
     (fst ts @ map sagevue_key obs,
      (snd ts)\<lparr>SageVue_Error_List := SageVue_Error_List (snd ts)
                   @ map sagevue_key (sagevue_new (snd ts) obs),
               ALERTS_NOTIF_LIST := ALERTS_NOTIF_LIST (snd ts)
                   @ map sagevue_line (filter (sagevue_unmuted (ALERTS_TEMP_IGNORE (snd ts)))
                                         (sagevue_new (snd ts) obs))\<rparr>)"

subsection \<open>Fusion\<close>

text \<open>
  An offline room is stored under its name; line 449 admits it unless a blacklisted
  keyword occurs in the name, and line 451 queues it with the fixed message. A room
  with an error is stored as the whole list \<open>[RoomName, RoomID, message, ...]\<close>; line
  487 admits it unless its message holds "1:notice" or "0:ok", and line 489 queues the
  name and the message.
\<close>

definition fusion_offline_admitted :: "string \<Rightarrow> bool" where
  "fusion_offline_admitted room = (\<not> list_ex (\<lambda>ext. py_in ext room) BLACKLISTED_KEYWORDS)"

definition fusion_offline_line :: "string \<Rightarrow> string" where
  "fusion_offline_line room = ''Fusion'' @ '' - '' @ room @ '' - '' @ ''Room has gone offline''"

definition fusion_offline_unmuted :: "string list \<Rightarrow> string \<Rightarrow> bool" where
  "fusion_offline_unmuted ignore room = (\<not> muted ignore room ''Room has gone offline'')"

definition fusion_offline_new :: "state \<Rightarrow> string list \<Rightarrow> string list" where
  "fusion_offline_new s rooms =
     fresh (\<lambda>room. room) (set (Fusion_Offline_List s)) (filter fusion_offline_admitted rooms)"

definition fusion_offline_apply ::
  "string list \<Rightarrow> string list \<times> state \<Rightarrow> string list \<times> state" where
  "fusion_offline_apply rooms ts =
     (fst ts @ rooms,
      (snd ts)\<lparr>Fusion_Offline_List := Fusion_Offline_List (snd ts) @ fusion_offline_new (snd ts) rooms,
               ALERTS_NOTIF_LIST := ALERTS_NOTIF_LIST (snd ts)
                 @ map fusion_offline_line
                     (filter (fusion_offline_unmuted (ALERTS_TEMP_IGNORE (snd ts)))
                        (fusion_offline_new (snd ts) rooms))\<rparr>)"

definition fusion_error_admitted :: "string list \<Rightarrow> bool" where
  "fusion_error_admitted room = (\<not> py_in ''1:notice'' (room ! 2) \<and> \<not> py_in ''0:ok'' (room ! 2))"

definition fusion_error_line :: "string list \<Rightarrow> string" where
  "fusion_error_line room = ''Fusion'' @ '' - '' @ room ! 0 @ '' - '' @ room ! 2"

definition fusion_error_unmuted :: "string list \<Rightarrow> string list \<Rightarrow> bool" where
  "fusion_error_unmuted ignore room = (\<not> muted ignore (room ! 0) (room ! 2))"

definition fusion_error_new :: "state \<Rightarrow> string list list \<Rightarrow> string list list" where
  "fusion_error_new s rooms =
     fresh (\<lambda>room. room) (set (Fusion_Error_List s)) (filter fusion_error_admitted rooms)"

definition fusion_error_apply :: "string list list \<Rightarrow> state \<Rightarrow> state" where
  "fusion_error_apply rooms s =
     s\<lparr>Fusion_Error_List := Fusion_Error_List s @ fusion_error_new s rooms,
       ALERTS_NOTIF_LIST := ALERTS_NOTIF_LIST s
         @ map fusion_error_line
             (filter (fusion_error_unmuted (ALERTS_TEMP_IGNORE s)) (fusion_error_new s rooms))\<rparr>"

subsection \<open>The rejection of a mute request\<close>

text \<open>The notification of line 207 for the keyword \<open>k\<close>.\<close>

definition invalid_time_message :: "string \<Rightarrow> message" where
  "invalid_time_message k =
     \<lparr>channel = NotifChannel, head = ''Program Notification'',
      body = [MessageBlock (''Cannot mute alerts containing '' @ k @ '' - time parameter is invalid.'')]\<rparr>"

section \<open>A concrete installation\<close>

text \<open>
  One domain "Hall" with the device Amp1, a SageVue system "Atrium", a few Fusion rooms,
  and webhooks that answer, answer with an error status, or cannot be reached. The
  theorems are exercised on these values.
\<close>

definition hall_state :: state where
  "hall_state = initial_state\<lparr>SEND_ALERTS := True, DDM_DOMAINS := [''Hall'']\<rparr>"

definition amp1_down :: ddm_device where
  "amp1_down = \<lparr>device_name = ''Amp1'', connectivity = ''ERROR'', subscriptions = ''ERROR'',
      latency = ''ERROR'', clocking = ''OK''\<rparr>"

definition amp1_up :: ddm_device where
  "amp1_up = \<lparr>device_name = ''Amp1'', connectivity = ''OK'', subscriptions = ''OK'',
      latency = ''OK'', clocking = ''OK''\<rparr>"

definition hall_down :: ddm_query where
  "hall_down = (\<lambda>domain. Inr [amp1_down])"

definition hall_up :: ddm_query where
  "hall_up = (\<lambda>domain. Inr [amp1_up])"

definition hall_unanswered :: ddm_query where
  "hall_unanswered = (\<lambda>domain. Inl (UnexpectedStatus 503))"

definition answering :: http where
  "answering = (\<lambda>m. Inr 200)"

definition rejecting :: http where
  "rejecting = (\<lambda>m. Inr 500)"

definition unreachable :: http where
  "unreachable = (\<lambda>m. Inl (RequestException ''timed out''))"

definition atrium :: "sagevue_system list" where
  "atrium = [\<lparr>Status = ''Red'', Description = ''Atrium'',
              Faults = [''DAN1 mute active'', ''Fan failure'']\<rparr>,
            \<lparr>Status = ''Green'', Description = ''Lobby'', Faults = [''Door open'']\<rparr>]"

definition sagevue_up :: sagevue_api where
  "sagevue_up = \<lparr>auth_query = Inr 200, login = Inr ''session-2'',
      systems_request = Inr (Inr atrium), devices_request = Inr (Inr 4)\<rparr>"

definition sagevue_down :: sagevue_api where
  "sagevue_down = sagevue_up\<lparr>auth_query := Inl (RequestException ''timed out'')\<rparr>"

definition lab_rooms :: "string list" where
  "lab_rooms = [''Room 101'', ''Test Devices Lab'']"

definition lamp_rooms :: "string list list" where
  "lamp_rooms = [[''Room 102'', ''id-102'', ''2:error lamp'']]"

definition fusion_up :: fusion_db where
  "fusion_up = \<lparr>connect = None, offline_query = Inr [''Room 101'', ''Test Devices Lab''],
      error_query = Inr [(''Room 102'', ''id-102'')],
      error_message_query = (\<lambda>room_id. Inr [''2:error lamp'']),
      help_query = Inr [], help_message_query = (\<lambda>room_id. Inr [])\<rparr>"

definition fusion_down :: fusion_db where
  "fusion_down = fusion_up\<lparr>connect := Some (DatabaseError ''connection refused'')\<rparr>"

text \<open>
  An interpreter with the default limit of 4300 digits on a platform that keeps the
  length of a sleep as a signed 64-bit number of nanoseconds: a longer sleep raises
  \<open>OverflowError\<close>, any other returns after the other threads have done \<open>during\<close>.
\<close>

definition cpython :: "(state \<Rightarrow> state) \<Rightarrow> runtime" where
  "cpython during =
     \<lparr>max_str_digits = 4300,
      time_sleep = (\<lambda>seconds s. if seconds * 1000000000 < 2 ^ 63 then Inr (during s)
                                   else Inl (OverflowError, s))\<rparr>"

text \<open>
  A round in which every backend answers and reports its faults, the same round with a
  webhook that cannot be reached or that answers 500, and the same round with the
  Fusion database down.
\<close>

definition busy_cycle :: cycle where
  "busy_cycle = \<lparr>fusion_answers = fusion_up, sagevue_answers = sagevue_up, ddm_answers = hall_down,
      domains_answer = Inr [''Hall''], webhook = answering, date_today = ''2024-05-01'',
      due_jobs = []\<rparr>"

definition down_cycle :: cycle where
  "down_cycle = busy_cycle\<lparr>webhook := unreachable\<rparr>"

definition rejected_cycle :: cycle where
  "rejected_cycle = busy_cycle\<lparr>webhook := rejecting\<rparr>"

definition outage_cycle :: cycle where
  "outage_cycle = busy_cycle\<lparr>fusion_answers := fusion_down\<rparr>"

text \<open>The globals after the three backends have been polled in \<open>busy_cycle\<close>.\<close>

definition busy_state :: state where
  "busy_state =
     hall_state\<lparr>DDM_ERROR_LIST := [''Hall - Amp1 has a subscription error.'',
                                   ''Hall - Amp1 has a latency error.''],
       DDM_OFFLINE_LIST := [''Hall - Amp1 is offline.''],
       DDM_TEMP_LIST := [''Hall - Amp1 has a subscription error.'',
                         ''Hall - Amp1 has a latency error.''],
       DDM_TEMP_OFFLINE_LIST := [''Hall - Amp1 is offline.''],
       ALERTS_NOTIF_LIST := [''Fusion - Room 101 - Room has gone offline'',
                             ''Fusion - Room 102 - 2:error lamp'',
                             ''SageVue - Atrium - Fan failure'',
                             ''DDM - Hall - Amp1 is offline.'',
                             ''DDM - Hall - Amp1 has a subscription error.'',
                             ''DDM - Hall - Amp1 has a latency error.''],
       DDM_Total_Errors := 2, DDM_Missing_Devices := 1,
       SageVue_Error_List := [''Atrium - Fan failure''],
       Sagevue_Total_Errors := 1, Sagevue_Missing_Devices := 4,
       Fusion_Error_List := [[''Room 102'', ''id-102'', ''2:error lamp'']],
       Fusion_Offline_List := [''Room 101'']\<rparr>"

text \<open>
  The keyword "Amp1" muted before the first poll, and the globals after that poll once
  the mute has expired.
\<close>

definition muted_state :: state where
  "muted_state = hall_state\<lparr>ALERTS_TEMP_IGNORE := [''Amp1'']\<rparr>"

definition expired_state :: state where
  "expired_state = (ddm_thread hall_down muted_state)\<lparr>ALERTS_TEMP_IGNORE := []\<rparr>"

text \<open>Globals with stored faults and a pending alert, for the report.\<close>

definition report_state :: state where
  "report_state =
     initial_state\<lparr>DDM_OFFLINE_LIST := [''Hall - Amp1 is offline.''],
       Fusion_Error_List := [[''Room 101'', ''id-101'', ''Projector lamp'']],
       ALERTS_NOTIF_LIST := [''DDM - Hall - Amp1 is offline.''], SEND_ALERTS := True\<rparr>"

section \<open>The loop that drops stale entries\<close>

text \<open>
  An entry that the cycle still reports is never dropped, and nothing is added; when every
  entry is still reported the list is left as it is. The three conditional equations at
  the end run the loop on a given list.
\<close>

lemma remove_loop_subset: "set (remove_loop i L T) \<subseteq> set L"
proof (induction i L T rule: remove_loop.induct)
  case (1 i L T)
  show ?case
  proof (cases "i < length L")
    case False
    then show ?thesis by (subst remove_loop.simps) simp
  next
    case True
    show ?thesis
    proof (cases "L ! i \<in> set T")
      case True
      with \<open>i < length L\<close> "1.IH"(2) show ?thesis
        by (subst remove_loop.simps) simp
    next
      case False
      with \<open>i < length L\<close> "1.IH"(1)
      have "set (remove_loop (i + 1) (remove1 (L ! i) L) T) \<subseteq> set (remove1 (L ! i) L)"
        by simp
      also have "\<dots> \<subseteq> set L"
        by (rule set_remove1_subset)
      finally show ?thesis
        using False \<open>i < length L\<close> by (subst remove_loop.simps) simp
    qed
  qed
qed

lemma remove_loop_keeps: "x \<in> set L \<Longrightarrow> x \<in> set T \<Longrightarrow> x \<in> set (remove_loop i L T)"
proof (induction i L T rule: remove_loop.induct)
  case (1 i L T)
  show ?case
  proof (cases "i < length L")
    case False
    with "1.prems" show ?thesis by (subst remove_loop.simps) simp
  next
    case True
    show ?thesis
    proof (cases "L ! i \<in> set T")
      case True
      with \<open>i < length L\<close> "1.IH"(2) "1.prems" show ?thesis
        by (subst remove_loop.simps) simp
    next
      case False
      with "1.prems" have "x \<noteq> L ! i" by auto
      with "1.prems" have "x \<in> set (remove1 (L ! i) L)" by simp
      with False \<open>i < length L\<close> "1.IH"(1) "1.prems" show ?thesis
        by (subst remove_loop.simps) simp
    qed
  qed
qed

lemma remove_loop_id: "set L \<subseteq> set T \<Longrightarrow> remove_loop i L T = L"
proof (induction i L T rule: remove_loop.induct)
  case (1 i L T)
  show ?case
  proof (cases "i < length L")
    case False
    then show ?thesis by (subst remove_loop.simps) simp
  next
    case True
    with "1.prems" have "L ! i \<in> set T" by (meson nth_mem subsetD)
    with True "1.IH"(2) "1.prems" show ?thesis
      by (subst remove_loop.simps) simp
  qed
qed

lemma remove_loop_distinct: "distinct L \<Longrightarrow> distinct (remove_loop i L T)"
proof (induction i L T rule: remove_loop.induct)
  case (1 i L T)
  show ?case
  proof (cases "i < length L")
    case False
    with "1.prems" show ?thesis by (subst remove_loop.simps) simp
  next
    case True
    with "1.IH" "1.prems" show ?thesis
      by (subst remove_loop.simps) (simp add: distinct_remove1)
  qed
qed

lemma remove_loop_between:
  "set L \<inter> set T \<subseteq> set (remove_loop 0 L T) \<and> set (remove_loop 0 L T) \<subseteq> set L"
  using remove_loop_keeps [of _ L T 0] remove_loop_subset [of 0 L T] by auto

lemma remove_loop_stop: "\<not> i < length L \<Longrightarrow> remove_loop i L T = L"
  by (subst remove_loop.simps) simp

lemma remove_loop_drop:
  "i < length L \<Longrightarrow> L ! i \<notin> set T \<Longrightarrow> remove_loop i L T = remove_loop (Suc i) (remove1 (L ! i) L) T"
  by (subst remove_loop.simps) simp

lemma remove_loop_keep:
  "i < length L \<Longrightarrow> L ! i \<in> set T \<Longrightarrow> remove_loop i L T = remove_loop (Suc i) L T"
  by (subst remove_loop.simps) simp

lemmas remove_loop_eval = remove_loop_stop remove_loop_drop remove_loop_keep

text \<open>
  Of two neighbours the walk drops the first and never looks at the second, also when
  the cycle reports neither.
\<close>

lemma remove_loop_skips_neighbour:
  "a \<notin> set T \<Longrightarrow> remove_loop 0 [a, b] T = [b]"
  by (simp add: remove_loop_eval)

section \<open>Newly active faults\<close>

text \<open>
  What \<open>fresh\<close> takes from a list of reports: each key that is not stored, once, in the
  order of the reports.
\<close>

lemma fresh_append:
  "fresh key S (xs @ ys) = fresh key S xs @ fresh key (S \<union> key ` set xs) ys"
  by (induction xs arbitrary: S) (auto simp: insert_absorb)

lemma fresh_subset: "set (fresh key S xs) \<subseteq> set xs"
  by (induction xs arbitrary: S) auto

lemma fresh_keys: "key ` set (fresh key S xs) = key ` set xs - S"
  by (induction xs arbitrary: S) auto

lemma fresh_distinct: "distinct (map key (fresh key S xs))"
proof (induction xs arbitrary: S)
  case Nil
  show ?case by simp
next
  case (Cons x xs)
  have "key x \<notin> key ` set (fresh key (insert (key x) S) xs)"
    by (simp add: fresh_keys)
  with Cons show ?case by simp
qed

lemma fresh_stored_set: "set (L @ map key (fresh key (set L) xs)) = set L \<union> key ` set xs"
  using fresh_keys [of key "set L" xs] by auto

lemma fresh_class:
  "filter (\<lambda>f. cls f = c) (fresh (\<lambda>f. (cls f, key f)) S xs) =
     fresh key {k. (c, k) \<in> S} (filter (\<lambda>f. cls f = c) xs)"
proof (induction xs arbitrary: S)
  case Nil
  show ?case by simp
next
  case (Cons x xs)
  show ?case
  proof (cases "cls x = c")
    case True
    have "{k. (c, k) \<in> insert (c, key x) S} = insert (key x) {k. (c, k) \<in> S}"
      by auto
    with True show ?thesis by (simp add: Cons.IH)
  next
    case False
    then have "{k. (c, k) \<in> insert (cls x, key x) S} = {k. (c, k) \<in> S}"
      by auto
    with False show ?thesis by (simp add: Cons.IH)
  qed
qed

lemma map_filter_empty_set: "set (map f (filter P xs)) = {} \<Longrightarrow> filter P xs = []"
  by simp

lemma filter_both_empty: "filter P xs = [] \<Longrightarrow> filter (\<lambda>x. \<not> P x) xs = [] \<Longrightarrow> xs = []"
  by (induction xs) (auto split: if_splits)

lemma add_to_alert_notif_push_muted:
  "add_to_alert_notif_push category device msg s =
     (if muted (ALERTS_TEMP_IGNORE s) device msg then s
      else s\<lparr>ALERTS_NOTIF_LIST := ALERTS_NOTIF_LIST s @ [category @ '' - '' @ device @ '' - '' @ msg]\<rparr>)"
  by (simp add: add_to_alert_notif_push_def muted_def)

section \<open>The scan of the Dante Domain Manager in closed form\<close>

text \<open>
  The loops over domains and devices compute \<open>ddm_apply\<close> of the faults they meet; from
  that, each global after \<open>ddm_scan\<close> and after \<open>ddm_thread\<close> is read off.
\<close>

lemma ddm_apply_Nil: "ddm_apply [] s = s"
  by (simp add: ddm_apply_def)

lemma ddm_apply_fields:
  "DDM_OFFLINE_LIST (ddm_apply obs s) = DDM_OFFLINE_LIST s
      @ map ddm_key (filter fst (fresh ddm_class_key (ddm_stored s) obs))"
  "DDM_ERROR_LIST (ddm_apply obs s) = DDM_ERROR_LIST s
      @ map ddm_key (filter (\<lambda>f. \<not> fst f) (fresh ddm_class_key (ddm_stored s) obs))"
  "DDM_TEMP_OFFLINE_LIST (ddm_apply obs s) = DDM_TEMP_OFFLINE_LIST s @ map ddm_key (filter fst obs)"
  "DDM_TEMP_LIST (ddm_apply obs s) = DDM_TEMP_LIST s @ map ddm_key (filter (\<lambda>f. \<not> fst f) obs)"
  "ALERTS_NOTIF_LIST (ddm_apply obs s) = ALERTS_NOTIF_LIST s
      @ map ddm_line (filter (ddm_unmuted (ALERTS_TEMP_IGNORE s))
                        (fresh ddm_class_key (ddm_stored s) obs))"
  "ALERTS_TEMP_IGNORE (ddm_apply obs s) = ALERTS_TEMP_IGNORE s"
  "console (ddm_apply obs s) = console s"
  by (simp_all add: ddm_apply_def)

lemma ddm_class_key_split:
  "ddm_class_key ` set N =
     Pair True ` set (map ddm_key (filter fst N))
     \<union> Pair False ` set (map ddm_key (filter (\<lambda>f. \<not> fst f) N))"
  by (induction N) (auto simp: ddm_class_key_def)

lemma ddm_stored_apply: "ddm_stored (ddm_apply obs s) = ddm_stored s \<union> ddm_class_key ` set obs"
proof -
  let ?N = "fresh ddm_class_key (ddm_stored s) obs"
  have "ddm_stored (ddm_apply obs s) =
      ddm_stored s \<union> (Pair True ` set (map ddm_key (filter fst ?N))
        \<union> Pair False ` set (map ddm_key (filter (\<lambda>f. \<not> fst f) ?N)))"
    unfolding ddm_stored_def ddm_apply_fields set_append image_Un by blast
  also have "\<dots> = ddm_stored s \<union> ddm_class_key ` set ?N"
    by (simp only: ddm_class_key_split)
  also have "\<dots> = ddm_stored s \<union> ddm_class_key ` set obs"
    unfolding fresh_keys by blast
  finally show ?thesis .
qed

lemma ddm_apply_append: "ddm_apply (xs @ ys) s = ddm_apply ys (ddm_apply xs s)"
proof -
  have ig: "ALERTS_TEMP_IGNORE (ddm_apply xs s) = ALERTS_TEMP_IGNORE s"
    by (simp add: ddm_apply_def)
  show ?thesis
    unfolding ddm_apply_def [of ys] ddm_stored_apply ig
    by (simp add: ddm_apply_def fresh_append)
qed

lemma ddm_offline_block:
  "(let connectivity_string = domain @ '' - '' @ msg;
        s1 = s\<lparr>DDM_TEMP_OFFLINE_LIST := DDM_TEMP_OFFLINE_LIST s @ [connectivity_string]\<rparr>
    in if connectivity_string \<notin> set (DDM_OFFLINE_LIST s1)
       then add_to_alert_notif_push ''DDM'' domain msg
              (s1\<lparr>DDM_OFFLINE_LIST := DDM_OFFLINE_LIST s1 @ [connectivity_string]\<rparr>)
       else s1) = ddm_apply [(True, domain, msg)] s"
  by (auto simp: ddm_apply_def Let_def add_to_alert_notif_push_muted ddm_stored_def
      ddm_class_key_def ddm_key_def ddm_line_def ddm_unmuted_def)

lemma ddm_error_block_apply:
  "ddm_error_block status domain dev_name text s =
     ddm_apply (if status = ''ERROR'' then [(False, domain, dev_name @ text)] else []) s"
  by (auto simp: ddm_error_block_def ddm_apply_def Let_def add_to_alert_notif_push_muted ddm_stored_def
      ddm_class_key_def ddm_key_def ddm_line_def ddm_unmuted_def)

lemma ddm_device_body_apply:
  "ddm_device_body domain device s = ddm_apply (ddm_faults_of domain device) s"
proof (cases "connectivity device = ''ERROR''")
  case False
  then show ?thesis
    by (simp add: ddm_device_body_def ddm_faults_of_def ddm_apply_Nil)
next
  case True
  have off: "ddm_apply [(True, domain, device_name device @ '' is offline.'')] s =
     (let connectivity_string = domain @ '' - '' @ device_name device @ '' is offline.'';
        s1 = s\<lparr>DDM_TEMP_OFFLINE_LIST := DDM_TEMP_OFFLINE_LIST s @ [connectivity_string]\<rparr>
    in if connectivity_string \<notin> set (DDM_OFFLINE_LIST s1)
       then add_to_alert_notif_push ''DDM'' domain (device_name device @ '' is offline.'')
              (s1\<lparr>DDM_OFFLINE_LIST := DDM_OFFLINE_LIST s1 @ [connectivity_string]\<rparr>)
       else s1)"
    by (rule ddm_offline_block [symmetric])
  show ?thesis
    unfolding ddm_faults_of_def if_P [OF True] ddm_apply_append off
    by (simp only: ddm_device_body_def if_P [OF True] ddm_error_block_apply Let_def)
qed

lemma ddm_devices_loop_apply:
  "ddm_devices_loop domain devices s = ddm_apply (concat (map (ddm_faults_of domain) devices)) s"
  by (induction devices arbitrary: s)
     (simp_all add: ddm_apply_Nil ddm_device_body_apply ddm_apply_append)

lemma console_ddm_apply: "console (ddm_apply obs s) = console s"
  by (simp add: ddm_apply_def)

lemma ddm_domains_loop_apply:
  "ddm_domains_loop query domains s =
     (ddm_apply (ddm_observed query domains) s)\<lparr>console := console s @ ddm_failure query domains\<rparr>"
proof (induction domains arbitrary: s)
  case Nil
  show ?case by (simp add: ddm_apply_Nil)
next
  case (Cons domain domains)
  show ?case
  proof (cases "query domain")
    case (Inl e)
    then show ?thesis by (simp add: ddm_apply_Nil)
  next
    case (Inr devices)
    then show ?thesis
      by (simp add: Cons.IH ddm_devices_loop_apply ddm_apply_append console_ddm_apply)
  qed
qed

lemma ddm_scan_apply:
  "ddm_scan query s =
     (ddm_apply (ddm_observed query (DDM_DOMAINS s))
        (s\<lparr>DDM_TEMP_LIST := [], DDM_TEMP_OFFLINE_LIST := []\<rparr>))
       \<lparr>console := console s @ ddm_failure query (DDM_DOMAINS s)\<rparr>"
  by (simp add: ddm_scan_def ddm_domains_loop_apply)

lemma ddm_new_offline:
  "filter fst (ddm_new query s) =
     fresh ddm_key (set (DDM_OFFLINE_LIST s)) (filter fst (ddm_observed query (DDM_DOMAINS s)))"
proof -
  have "{k. (True, k) \<in> ddm_stored s} = set (DDM_OFFLINE_LIST s)"
    by (auto simp: ddm_stored_def)
  then show ?thesis
    using fresh_class [of fst True ddm_key "ddm_stored s" "ddm_observed query (DDM_DOMAINS s)"]
    by (simp add: ddm_new_def ddm_class_key_def [abs_def])
qed

lemma ddm_new_error:
  "filter (\<lambda>f. \<not> fst f) (ddm_new query s) =
     fresh ddm_key (set (DDM_ERROR_LIST s))
       (filter (\<lambda>f. \<not> fst f) (ddm_observed query (DDM_DOMAINS s)))"
proof -
  have "{k. (False, k) \<in> ddm_stored s} = set (DDM_ERROR_LIST s)"
    by (auto simp: ddm_stored_def)
  then show ?thesis
    using fresh_class [of fst False ddm_key "ddm_stored s" "ddm_observed query (DDM_DOMAINS s)"]
    by (simp add: ddm_new_def ddm_class_key_def [abs_def])
qed

lemma ddm_scan_fields:
  "DDM_OFFLINE_LIST (ddm_scan query s) = DDM_OFFLINE_LIST s @ map ddm_key (filter fst (ddm_new query s))"
  "DDM_ERROR_LIST (ddm_scan query s) =
     DDM_ERROR_LIST s @ map ddm_key (filter (\<lambda>f. \<not> fst f) (ddm_new query s))"
  "DDM_TEMP_OFFLINE_LIST (ddm_scan query s) =
     map ddm_key (filter fst (ddm_observed query (DDM_DOMAINS s)))"
  "DDM_TEMP_LIST (ddm_scan query s) =
     map ddm_key (filter (\<lambda>f. \<not> fst f) (ddm_observed query (DDM_DOMAINS s)))"
  "ALERTS_NOTIF_LIST (ddm_scan query s) =
     ALERTS_NOTIF_LIST s @ map ddm_line (filter (ddm_unmuted (ALERTS_TEMP_IGNORE s)) (ddm_new query s))"
  "ALERTS_TEMP_IGNORE (ddm_scan query s) = ALERTS_TEMP_IGNORE s"
  "DDM_DOMAINS (ddm_scan query s) = DDM_DOMAINS s"
  by (simp_all add: ddm_scan_apply ddm_apply_def ddm_new_def ddm_stored_def)

lemma ddm_thread_fields:
  "DDM_OFFLINE_LIST (ddm_thread query s) =
     remove_loop 0 (DDM_OFFLINE_LIST (ddm_scan query s)) (DDM_TEMP_OFFLINE_LIST (ddm_scan query s))"
  "DDM_ERROR_LIST (ddm_thread query s) =
     remove_loop 0 (DDM_ERROR_LIST (ddm_scan query s)) (DDM_TEMP_LIST (ddm_scan query s))"
  "DDM_TEMP_OFFLINE_LIST (ddm_thread query s) = DDM_TEMP_OFFLINE_LIST (ddm_scan query s)"
  "DDM_TEMP_LIST (ddm_thread query s) = DDM_TEMP_LIST (ddm_scan query s)"
  "ALERTS_NOTIF_LIST (ddm_thread query s) = ALERTS_NOTIF_LIST (ddm_scan query s)"
  "ALERTS_TEMP_IGNORE (ddm_thread query s) = ALERTS_TEMP_IGNORE (ddm_scan query s)"
  "DDM_Missing_Devices (ddm_thread query s) = length (DDM_OFFLINE_LIST (ddm_thread query s))"
  "DDM_Total_Errors (ddm_thread query s) = length (DDM_ERROR_LIST (ddm_thread query s))"
  by (simp_all add: ddm_thread_def ddm_gauges_def ddm_prune_def Let_def)

lemma ddm_thread_domains: "DDM_DOMAINS (ddm_thread query s) = DDM_DOMAINS s"
  by (simp add: ddm_thread_def ddm_gauges_def ddm_prune_def Let_def ddm_scan_fields(7))

lemma ddm_queued:
  "ALERTS_NOTIF_LIST (ddm_thread query s) =
     ALERTS_NOTIF_LIST s @ map ddm_line (filter (ddm_unmuted (ALERTS_TEMP_IGNORE s)) (ddm_new query s))"
  by (simp add: ddm_thread_fields(5) ddm_scan_fields(5))

lemma ddm_new_offline_keys:
  "distinct (map ddm_key (filter fst (ddm_new query s)))"
  "set (map ddm_key (filter fst (ddm_new query s))) =
     set (DDM_TEMP_OFFLINE_LIST (ddm_scan query s)) - set (DDM_OFFLINE_LIST s)"
  unfolding ddm_new_offline ddm_scan_fields
  by (simp_all add: fresh_distinct fresh_keys)

lemma ddm_new_error_keys:
  "distinct (map ddm_key (filter (\<lambda>f. \<not> fst f) (ddm_new query s)))"
  "set (map ddm_key (filter (\<lambda>f. \<not> fst f) (ddm_new query s))) =
     set (DDM_TEMP_LIST (ddm_scan query s)) - set (DDM_ERROR_LIST s)"
  unfolding ddm_new_error ddm_scan_fields
  by (simp_all add: fresh_distinct fresh_keys)

lemma ddm_new_key_sets:
  "set (map ddm_key (filter fst (ddm_new query s))) \<subseteq> set (DDM_TEMP_OFFLINE_LIST (ddm_thread query s))"
  "set (map ddm_key (filter (\<lambda>f. \<not> fst f) (ddm_new query s))) \<subseteq> set (DDM_TEMP_LIST (ddm_thread query s))"
  unfolding ddm_new_offline_keys(2) ddm_new_error_keys(2) ddm_thread_fields by auto

lemma ddm_new_observed: "set (ddm_new query s) \<subseteq> set (ddm_observed query (DDM_DOMAINS s))"
  unfolding ddm_new_def by (rule fresh_subset)

lemma ddm_line_key: "ddm_line f = ''DDM - '' @ ddm_key f"
  by (simp add: ddm_line_def ddm_key_def)

lemma stored_offline_superset:
  "set (DDM_TEMP_OFFLINE_LIST (ddm_thread query s)) \<subseteq> set (DDM_OFFLINE_LIST (ddm_thread query s))"
proof -
  let ?O = "DDM_OFFLINE_LIST (ddm_scan query s)" and ?TO = "DDM_TEMP_OFFLINE_LIST (ddm_scan query s)"
  have "set ?O = set (DDM_OFFLINE_LIST s) \<union> set ?TO"
    unfolding ddm_scan_fields(1) set_append ddm_new_offline_keys(2) by auto
  then show ?thesis
    unfolding ddm_thread_fields using remove_loop_between [of ?O ?TO] by auto
qed

subsection \<open>Offline keys and error keys never coincide\<close>

lemma ddm_faults_of_shape:
  "f \<in> set (ddm_faults_of domain device) \<Longrightarrow>
     (fst f \<longrightarrow> (\<exists>x. ddm_key f = x @ '' is offline.''))
     \<and> (\<not> fst f \<longrightarrow> (\<exists>x. ddm_key f = x @ '' error.''))"
proof -
  have a: "\<exists>x. domain @ '' - '' @ n @ '' has a subscription error.'' = x @ '' error.''" for n
    by (rule exI [of _ "domain @ '' - '' @ n @ '' has a subscription''"]) simp
  have b: "\<exists>x. domain @ '' - '' @ n @ '' has a latency error.'' = x @ '' error.''" for n
    by (rule exI [of _ "domain @ '' - '' @ n @ '' has a latency''"]) simp
  have c: "\<exists>x. domain @ '' - '' @ n @ '' has a clocking error.'' = x @ '' error.''" for n
    by (rule exI [of _ "domain @ '' - '' @ n @ '' has a clocking''"]) simp
  have d: "\<exists>x. domain @ '' - '' @ n @ '' is offline.'' = x @ '' is offline.''" for n
    by (rule exI [of _ "domain @ '' - '' @ n"]) simp
  assume "f \<in> set (ddm_faults_of domain device)"
  then show ?thesis
    using a b c d by (auto simp: ddm_faults_of_def ddm_key_def split: if_splits)
qed

lemma ddm_observed_shape:
  "f \<in> set (ddm_observed query domains) \<Longrightarrow>
     (fst f \<longrightarrow> (\<exists>x. ddm_key f = x @ '' is offline.''))
     \<and> (\<not> fst f \<longrightarrow> (\<exists>x. ddm_key f = x @ '' error.''))"
proof (induction domains)
  case Nil
  then show ?case by simp
next
  case (Cons domain domains)
  show ?case
  proof (cases "query domain")
    case (Inl e)
    with Cons.prems show ?thesis by simp
  next
    case (Inr devices)
    with Cons.prems consider device where "device \<in> set devices" "f \<in> set (ddm_faults_of domain device)"
      | "f \<in> set (ddm_observed query domains)"
      by auto
    then show ?thesis
    proof cases
      case 1
      then show ?thesis using ddm_faults_of_shape by blast
    next
      case 2
      then show ?thesis by (rule Cons.IH)
    qed
  qed
qed

lemma offline_not_error: "x @ '' is offline.'' \<noteq> y @ '' error.''"
proof
  assume "x @ '' is offline.'' = y @ '' error.''"
  then have "rev (x @ '' is offline.'') ! 1 = rev (y @ '' error.'') ! 1"
    by (rule arg_cong)
  then show False by simp
qed

subsection \<open>A muted or stored key is not queued\<close>

lemma muted_new_key_silent:
  assumes "list_all (\<lambda>f. ddm_key f = k \<longrightarrow> muted (ALERTS_TEMP_IGNORE s) (fst (snd f)) (snd (snd f)))
             (ddm_observed query (DDM_DOMAINS s))"
  shows "''DDM - '' @ k
           \<notin> set (map ddm_line (filter (ddm_unmuted (ALERTS_TEMP_IGNORE s)) (ddm_new query s)))"
proof
  assume "''DDM - '' @ k
           \<in> set (map ddm_line (filter (ddm_unmuted (ALERTS_TEMP_IGNORE s)) (ddm_new query s)))"
  then obtain f where f: "f \<in> set (ddm_new query s)" "ddm_unmuted (ALERTS_TEMP_IGNORE s) f"
      "ddm_key f = k"
    by (auto simp: ddm_line_key)
  from f(1) have "f \<in> set (ddm_observed query (DDM_DOMAINS s))"
    using ddm_new_observed by blast
  with assms f(3) have "muted (ALERTS_TEMP_IGNORE s) (fst (snd f)) (snd (snd f))"
    by (auto simp: list_all_iff)
  with f(2) show False by (simp add: ddm_unmuted_def)
qed

lemma stored_key_stays_silent:
  assumes stored: "k \<in> set (DDM_OFFLINE_LIST s)"
    and reported: "k \<in> set (DDM_TEMP_OFFLINE_LIST (ddm_thread query s))"
  shows "''DDM - '' @ k
           \<notin> set (map ddm_line (filter (ddm_unmuted (ALERTS_TEMP_IGNORE s)) (ddm_new query s)))"
proof
  assume "''DDM - '' @ k
           \<in> set (map ddm_line (filter (ddm_unmuted (ALERTS_TEMP_IGNORE s)) (ddm_new query s)))"
  then obtain f where f: "f \<in> set (ddm_new query s)" "ddm_key f = k"
    by (auto simp: ddm_line_key)
  from f(1) have obs: "f \<in> set (ddm_observed query (DDM_DOMAINS s))"
    using ddm_new_observed by blast
  from reported obtain g where g: "g \<in> set (ddm_observed query (DDM_DOMAINS s))" "fst g" "ddm_key g = k"
    by (auto simp: ddm_thread_fields(3) ddm_scan_fields(3))
  then obtain x where x: "k = x @ '' is offline.''"
    using ddm_observed_shape [of g query "DDM_DOMAINS s"] by auto
  show False
  proof (cases "fst f")
    case True
    with f have "k \<in> set (map ddm_key (filter fst (ddm_new query s)))" by auto
    with stored show False unfolding ddm_new_offline_keys(2) by simp
  next
    case False
    with obs obtain y where "ddm_key f = y @ '' error.''"
      using ddm_observed_shape [of f query "DDM_DOMAINS s"] by auto
    with f(2) x show False using offline_not_error by metis
  qed
qed

lemma stored_key_silent_in_later_cycles:
  "k \<in> set (DDM_OFFLINE_LIST s) \<Longrightarrow>
   list_all (\<lambda>c. k \<in> set (map ddm_key (filter fst (ddm_observed (snd c) (DDM_DOMAINS s))))) cycles \<Longrightarrow>
     k \<in> set (DDM_OFFLINE_LIST
                 (foldl (\<lambda>s c. ddm_thread (snd c) (s\<lparr>ALERTS_TEMP_IGNORE := fst c\<rparr>)) s cycles))
     \<and> (\<exists>queued. ALERTS_NOTIF_LIST
                     (foldl (\<lambda>s c. ddm_thread (snd c) (s\<lparr>ALERTS_TEMP_IGNORE := fst c\<rparr>)) s cycles)
                   = ALERTS_NOTIF_LIST s @ queued
                 \<and> ''DDM - '' @ k \<notin> set queued)"
proof (induction cycles arbitrary: s)
  case Nil
  then show ?case by simp
next
  case (Cons c cycles)
  let ?s0 = "s\<lparr>ALERTS_TEMP_IGNORE := fst c\<rparr>"
  let ?s1 = "ddm_thread (snd c) ?s0"
  let ?q1 = "map ddm_line (filter (ddm_unmuted (ALERTS_TEMP_IGNORE ?s0)) (ddm_new (snd c) ?s0))"
  from Cons.prems(2) have now: "k \<in> set (map ddm_key (filter fst (ddm_observed (snd c) (DDM_DOMAINS s))))"
    and later: "list_all (\<lambda>c. k \<in> set (map ddm_key (filter fst (ddm_observed (snd c) (DDM_DOMAINS s)))))
                  cycles"
    by simp_all
  have stored0: "k \<in> set (DDM_OFFLINE_LIST ?s0)"
    using Cons.prems(1) by simp
  have reported: "k \<in> set (DDM_TEMP_OFFLINE_LIST ?s1)"
    using now by (simp add: ddm_thread_fields(3) ddm_scan_fields(3))
  have stored1: "k \<in> set (DDM_OFFLINE_LIST ?s1)"
    using reported stored_offline_superset by blast
  have silent1: "''DDM - '' @ k \<notin> set ?q1"
    using stored0 reported by (rule stored_key_stays_silent)
  have queued1: "ALERTS_NOTIF_LIST ?s1 = ALERTS_NOTIF_LIST s @ ?q1"
    using ddm_queued [of "snd c" ?s0] by simp
  have dom: "DDM_DOMAINS ?s1 = DDM_DOMAINS s"
    by (simp add: ddm_thread_domains)
  from later have later1: "list_all
      (\<lambda>c. k \<in> set (map ddm_key (filter fst (ddm_observed (snd c) (DDM_DOMAINS ?s1))))) cycles"
    unfolding dom .
  from Cons.IH [OF stored1 later1] obtain queued where
    rest: "k \<in> set (DDM_OFFLINE_LIST
                 (foldl (\<lambda>s c. ddm_thread (snd c) (s\<lparr>ALERTS_TEMP_IGNORE := fst c\<rparr>)) ?s1 cycles))"
      "ALERTS_NOTIF_LIST
          (foldl (\<lambda>s c. ddm_thread (snd c) (s\<lparr>ALERTS_TEMP_IGNORE := fst c\<rparr>)) ?s1 cycles)
        = ALERTS_NOTIF_LIST ?s1 @ queued"
      "''DDM - '' @ k \<notin> set queued"
    by blast
  have "ALERTS_NOTIF_LIST
          (foldl (\<lambda>s c. ddm_thread (snd c) (s\<lparr>ALERTS_TEMP_IGNORE := fst c\<rparr>)) s (c # cycles))
        = ALERTS_NOTIF_LIST s @ (?q1 @ queued)"
    using rest(2) queued1 by simp
  moreover have "''DDM - '' @ k \<notin> set (?q1 @ queued)"
    using silent1 rest(3) by simp
  moreover have "k \<in> set (DDM_OFFLINE_LIST
                 (foldl (\<lambda>s c. ddm_thread (snd c) (s\<lparr>ALERTS_TEMP_IGNORE := fst c\<rparr>)) s (c # cycles)))"
    using rest(1) by simp
  ultimately show ?case by blast
qed

section \<open>The scan of SageVue in closed form\<close>

text \<open>
  The loops over systems and faults compute \<open>sagevue_apply\<close>.
\<close>

lemma sagevue_apply_Nil: "sagevue_apply [] ts = ts"
  by (simp add: sagevue_apply_def sagevue_new_def)

lemma sagevue_apply_append:
  "sagevue_apply (xs @ ys) ts = sagevue_apply ys (sagevue_apply xs ts)"
proof -
  obtain temp s where ts: "ts = (temp, s)" by (cases ts)
  define n2 where "n2 = sagevue_new (snd (sagevue_apply xs ts)) ys"
  have st: "set (SageVue_Error_List (snd (sagevue_apply xs ts))) =
      set (SageVue_Error_List s) \<union> sagevue_key ` set (filter sagevue_admitted xs)"
    unfolding ts sagevue_apply_def sagevue_new_def
    using fresh_stored_set [of "SageVue_Error_List s" sagevue_key "filter sagevue_admitted xs"]
    by simp
  have new: "sagevue_new s (xs @ ys) = sagevue_new s xs @ n2"
    unfolding n2_def sagevue_new_def st filter_append fresh_append ..
  have ig: "ALERTS_TEMP_IGNORE (snd (sagevue_apply xs ts)) = ALERTS_TEMP_IGNORE s"
    by (simp add: ts sagevue_apply_def)
  have "sagevue_apply ys (sagevue_apply xs ts) =
     (fst (sagevue_apply xs ts) @ map sagevue_key ys,
      (snd (sagevue_apply xs ts))\<lparr>SageVue_Error_List := SageVue_Error_List (snd (sagevue_apply xs ts))
                   @ map sagevue_key n2,
               ALERTS_NOTIF_LIST := ALERTS_NOTIF_LIST (snd (sagevue_apply xs ts))
                   @ map sagevue_line (filter (sagevue_unmuted (ALERTS_TEMP_IGNORE s)) n2)\<rparr>)"
    unfolding sagevue_apply_def [of ys] ig n2_def ..
  also have "\<dots> = sagevue_apply (xs @ ys) ts"
    by (simp add: ts sagevue_apply_def new)
  finally show ?thesis ..
qed

lemma sagevue_apply_single: "sagevue_apply [(Description system, fault)] (temp, s) =
     (temp @ [Description system @ '' - '' @ fault],
      if Description system @ '' - '' @ fault \<notin> set (SageVue_Error_List s)
           \<and> \<not> py_in ''DAN1'' fault \<and> \<not> py_in ''NTP'' fault
      then add_to_alert_notif_push ''SageVue'' (Description system) fault
             (s\<lparr>SageVue_Error_List := SageVue_Error_List s @ [Description system @ '' - '' @ fault]\<rparr>)
      else s)"
    by (simp add: sagevue_apply_def sagevue_new_def sagevue_key_def sagevue_admitted_def
        sagevue_line_def sagevue_unmuted_def add_to_alert_notif_push_muted)

lemma sagevue_faults_loop_apply:
  "sagevue_faults_loop system faults ts = sagevue_apply (map (Pair (Description system)) faults) ts"
proof (induction faults arbitrary: ts)
  case Nil
  show ?case by (cases ts) (simp add: sagevue_apply_Nil)
next
  case (Cons fault faults)
  obtain temp s where ts: "ts = (temp, s)" by (cases ts)
  have "sagevue_apply (map (Pair (Description system)) (fault # faults)) ts =
      sagevue_apply (map (Pair (Description system)) faults)
        (sagevue_apply [(Description system, fault)] ts)"
    using sagevue_apply_append [of "[(Description system, fault)]" "map (Pair (Description system)) faults" ts]
    by simp
  also have "\<dots> = sagevue_faults_loop system faults (sagevue_apply [(Description system, fault)] ts)"
    by (simp only: Cons.IH)
  also have "\<dots> = sagevue_faults_loop system (fault # faults) ts"
    unfolding ts sagevue_apply_single by (simp add: Let_def)
  finally show ?case ..
qed

lemma sagevue_systems_loop_apply:
  "sagevue_systems_loop systems ts = sagevue_apply (sagevue_observed systems) ts"
proof (induction systems arbitrary: ts)
  case Nil
  show ?case by (simp add: sagevue_observed_def sagevue_apply_Nil)
next
  case (Cons system systems)
  have "sagevue_observed (system # systems) =
      (if Status system \<noteq> ''Green'' then map (Pair (Description system)) (Faults system) else [])
      @ sagevue_observed systems"
    by (simp add: sagevue_observed_def)
  then show ?case
    by (simp add: Cons.IH sagevue_apply_append sagevue_faults_loop_apply sagevue_apply_Nil)
qed

lemma sagevue_scan_apply: "sagevue_scan systems s = sagevue_apply (sagevue_observed systems) ([], s)"
  by (simp add: sagevue_scan_def sagevue_systems_loop_apply)

lemma sagevue_scan_fields:
  "fst (sagevue_scan systems s) = map sagevue_key (sagevue_observed systems)"
  "SageVue_Error_List (snd (sagevue_scan systems s)) =
     SageVue_Error_List s @ map sagevue_key (sagevue_new s (sagevue_observed systems))"
  "ALERTS_NOTIF_LIST (snd (sagevue_scan systems s)) =
     ALERTS_NOTIF_LIST s @ map sagevue_line (filter (sagevue_unmuted (ALERTS_TEMP_IGNORE s))
                                               (sagevue_new s (sagevue_observed systems)))"
  "ALERTS_TEMP_IGNORE (snd (sagevue_scan systems s)) = ALERTS_TEMP_IGNORE s"
  by (simp_all add: sagevue_scan_apply sagevue_apply_def)

lemma sagevue_diff_fields:
  "SageVue_Error_List (sagevue_diff systems s) =
     remove_loop 0 (SageVue_Error_List (snd (sagevue_scan systems s))) (fst (sagevue_scan systems s))"
  "ALERTS_NOTIF_LIST (sagevue_diff systems s) = ALERTS_NOTIF_LIST (snd (sagevue_scan systems s))"
  "ALERTS_TEMP_IGNORE (sagevue_diff systems s) = ALERTS_TEMP_IGNORE (snd (sagevue_scan systems s))"
  "Sagevue_Total_Errors (sagevue_diff systems s) = length (SageVue_Error_List (sagevue_diff systems s))"
  by (simp_all add: sagevue_diff_def Let_def split: prod.splits)

lemma sagevue_new_keys:
  "distinct (map sagevue_key (sagevue_new s obs))"
  "set (map sagevue_key (sagevue_new s obs)) =
     set (map sagevue_key (filter sagevue_admitted obs)) - set (SageVue_Error_List s)"
  "set (sagevue_new s obs) \<subseteq> set (filter sagevue_admitted obs)"
  unfolding sagevue_new_def
  using fresh_subset [of sagevue_key "set (SageVue_Error_List s)" "filter sagevue_admitted obs"]
  by (simp_all add: fresh_distinct fresh_keys)

lemma sagevue_session_lists:
  assumes "sagevue_session api s = Inr s1"
  shows "SageVue_Error_List s1 = SageVue_Error_List s"
    and "ALERTS_NOTIF_LIST s1 = ALERTS_NOTIF_LIST s"
    and "ALERTS_TEMP_IGNORE s1 = ALERTS_TEMP_IGNORE s"
  using assms by (auto simp: sagevue_session_def split: sum.splits if_splits)

lemma sagevue_new_cong:
  "SageVue_Error_List s1 = SageVue_Error_List s \<Longrightarrow> sagevue_new s1 obs = sagevue_new s obs"
  by (simp add: sagevue_new_def)

lemma sage_vue_thread_answered:
  assumes "sagevue_session api s = Inr s1"
    and "systems_request api = Inr (Inr systems)"
    and "devices_request api = Inr (Inr errors)"
  shows "sage_vue_thread api s = (sagevue_diff systems s1)\<lparr>Sagevue_Missing_Devices := errors\<rparr>"
  using assms by (simp add: sage_vue_thread_def)

section \<open>The scans of Fusion in closed form\<close>

text \<open>
  The loops over offline rooms and over rooms with errors compute \<open>fusion_offline_apply\<close>
  and \<open>fusion_error_apply\<close>.
\<close>

lemma fusion_offline_loop_apply:
  "fusion_offline_loop rooms ts = fusion_offline_apply rooms ts"
proof (induction rooms arbitrary: ts)
  case Nil
  show ?case by (cases ts) (simp add: fusion_offline_apply_def fusion_offline_new_def)
next
  case (Cons room rooms)
  obtain temp s where ts: "ts = (temp, s)" by (cases ts)
  show ?case
  proof (cases "room \<notin> set (Fusion_Offline_List s) \<and> fusion_offline_admitted room")
    case False
    then have "fusion_offline_new s (room # rooms) = fusion_offline_new s rooms"
      by (auto simp: fusion_offline_new_def)
    with False show ?thesis
      unfolding ts by (auto simp: Cons.IH fusion_offline_apply_def fusion_offline_admitted_def)
  next
    case True
    define s1 where "s1 = add_to_alert_notif_push ''Fusion'' room ''Room has gone offline''
                             (s\<lparr>Fusion_Offline_List := Fusion_Offline_List s @ [room]\<rparr>)"
    have l1: "Fusion_Offline_List s1 = Fusion_Offline_List s @ [room]"
      and ig: "ALERTS_TEMP_IGNORE s1 = ALERTS_TEMP_IGNORE s"
      by (simp_all add: s1_def add_to_alert_notif_push_muted)
    have new: "fusion_offline_new s (room # rooms) = room # fusion_offline_new s1 rooms"
      using True by (simp add: fusion_offline_new_def l1)
    have "fusion_offline_loop (room # rooms) ts = fusion_offline_loop rooms (temp @ [room], s1)"
      using True unfolding ts s1_def by (simp add: fusion_offline_admitted_def)
    also have "\<dots> = fusion_offline_apply rooms (temp @ [room], s1)"
      by (rule Cons.IH)
    also have "\<dots> = fusion_offline_apply (room # rooms) ts"
      unfolding ts fusion_offline_apply_def fst_conv snd_conv new ig l1
      by (simp add: s1_def add_to_alert_notif_push_muted fusion_offline_unmuted_def
          fusion_offline_line_def)
    finally show ?thesis .
  qed
qed

lemma fusion_offline_phase_fields:
  "Fusion_Offline_List (fusion_offline_phase rooms s) =
     remove_loop 0 (Fusion_Offline_List s @ fusion_offline_new s rooms) rooms"
  "ALERTS_NOTIF_LIST (fusion_offline_phase rooms s) =
     ALERTS_NOTIF_LIST s @ map fusion_offline_line
        (filter (fusion_offline_unmuted (ALERTS_TEMP_IGNORE s)) (fusion_offline_new s rooms))"
  "ALERTS_TEMP_IGNORE (fusion_offline_phase rooms s) = ALERTS_TEMP_IGNORE s"
  by (simp_all add: fusion_offline_phase_def fusion_offline_loop_apply fusion_offline_apply_def)

lemma fusion_offline_new_keys:
  "distinct (fusion_offline_new s rooms)"
  "set (fusion_offline_new s rooms) =
     set (filter fusion_offline_admitted rooms) - set (Fusion_Offline_List s)"
  unfolding fusion_offline_new_def
  using fresh_distinct [of "\<lambda>room. room" "set (Fusion_Offline_List s)"
          "filter fusion_offline_admitted rooms"]
        fresh_keys [of "\<lambda>room. room" "set (Fusion_Offline_List s)"
          "filter fusion_offline_admitted rooms"]
  by simp_all

lemma fusion_error_loop_apply:
  "fusion_error_loop rooms s = Inr s' \<Longrightarrow> s' = fusion_error_apply rooms s"
proof (induction rooms arbitrary: s)
  case Nil
  then show ?case by (simp add: fusion_error_apply_def fusion_error_new_def)
next
  case (Cons room rooms)
  show ?case
  proof (cases "room \<notin> set (Fusion_Error_List s) \<and> fusion_error_admitted room")
    case False
    then have new: "fusion_error_new s (room # rooms) = fusion_error_new s rooms"
      by (auto simp: fusion_error_new_def)
    from False Cons.prems have "fusion_error_loop rooms s = Inr s'"
      by (auto simp: fusion_error_admitted_def split: if_splits)
    then have "s' = fusion_error_apply rooms s" by (rule Cons.IH)
    then show ?thesis by (simp add: fusion_error_apply_def new)
  next
    case True
    define s1 where "s1 = add_to_alert_notif_push ''Fusion'' (room ! 0) (room ! 2)
                             (s\<lparr>Fusion_Error_List := Fusion_Error_List s @ [room]\<rparr>)"
    have l1: "Fusion_Error_List s1 = Fusion_Error_List s @ [room]"
      and ig: "ALERTS_TEMP_IGNORE s1 = ALERTS_TEMP_IGNORE s"
      by (simp_all add: s1_def add_to_alert_notif_push_muted)
    have new: "fusion_error_new s (room # rooms) = room # fusion_error_new s1 rooms"
      using True by (simp add: fusion_error_new_def l1)
    from True Cons.prems have "fusion_error_loop rooms s1 = Inr s'"
      unfolding s1_def by (auto simp: fusion_error_admitted_def split: if_splits)
    then have "s' = fusion_error_apply rooms s1" by (rule Cons.IH)
    also have "\<dots> = fusion_error_apply (room # rooms) s"
      unfolding fusion_error_apply_def new ig l1
      by (simp add: s1_def add_to_alert_notif_push_muted fusion_error_unmuted_def
          fusion_error_line_def)
    finally show ?thesis .
  qed
qed

lemma fusion_error_loop_total:
  "list_all (\<lambda>room. 2 < length room) rooms \<Longrightarrow> \<exists>s'. fusion_error_loop rooms s = Inr s'"
  by (induction rooms arbitrary: s) auto

lemma fusion_error_new_keys:
  "distinct (fusion_error_new s rooms)"
  "set (fusion_error_new s rooms) =
     set (filter fusion_error_admitted rooms) - set (Fusion_Error_List s)"
  unfolding fusion_error_new_def
  using fresh_distinct [of "\<lambda>room. room" "set (Fusion_Error_List s)"
          "filter fusion_error_admitted rooms"]
        fresh_keys [of "\<lambda>room. room" "set (Fusion_Error_List s)"
          "filter fusion_error_admitted rooms"]
  by simp_all

section \<open>The flush, the poll loop and the report\<close>

lemma send_alert_notif_returns:
  assumes "\<forall>m. \<exists>code. post m = Inr code"
  shows "\<exists>s'. send_alert_notif post s = Inr s' \<and> ALERTS_NOTIF_LIST s' = [] \<and> console s' = console s"
proof (cases "SEND_ALERTS s \<and> length (ALERTS_NOTIF_LIST s) > 0")
  case False
  then show ?thesis by (auto simp: send_alert_notif_def)
next
  case True
  let ?m = "\<lparr>channel = AlertChannel, head = ''Device Alert'',
                     body = [MessageBlock
                               (py_str (length (ALERTS_NOTIF_LIST s)) @ '' new device alert''
                                  @ (if length (ALERTS_NOTIF_LIST s) > 1 then ''s.'' else ''.'')),
                             MessageBlock (join_cr (ALERTS_NOTIF_LIST s))]\<rparr>"
  from assms obtain code where "post ?m = Inr code" by blast
  with True show ?thesis by (simp add: send_alert_notif_def Let_def)
qed

lemma prog_loop_continues:
  "list_all (\<lambda>c. (\<forall>m. \<exists>code. webhook c m = Inr code) \<and> due_jobs c = []) cycles \<Longrightarrow>
     \<exists>s'. prog_loop cycles s = Inr s' \<and> (cycles \<noteq> [] \<longrightarrow> ALERTS_NOTIF_LIST s' = [])"
proof (induction cycles arbitrary: s)
  case Nil
  show ?case by simp
next
  case (Cons c cycles)
  then have post: "\<forall>m. \<exists>code. webhook c m = Inr code" and due: "due_jobs c = []"
    and rest: "list_all (\<lambda>c. (\<forall>m. \<exists>code. webhook c m = Inr code) \<and> due_jobs c = []) cycles"
    by simp_all
  obtain s1 where s1: "send_alert_notif (webhook c) (poll_backends c s) = Inr s1"
    "ALERTS_NOTIF_LIST s1 = []"
    using send_alert_notif_returns [OF post] by blast
  then have step: "prog_cycle c s = Inr s1"
    by (simp add: prog_cycle_def due)
  from Cons.IH [OF rest, of s1] obtain s' where
    s': "prog_loop cycles s1 = Inr s'" "cycles \<noteq> [] \<longrightarrow> ALERTS_NOTIF_LIST s' = []"
    by blast
  show ?case
  proof (cases cycles)
    case Nil
    with step s1 show ?thesis by simp
  next
    case (Cons c' cs)
    with step s' show ?thesis by simp
  qed
qed

lemma run_report_cases:
  "(\<exists>e. run_report post day s = Inl (e, s)) \<or>
   (\<exists>fu. get_fusion_status_message s = Inr fu \<and>
      run_report post day s =
        Inr (s\<lparr>outbox := outbox s @
               [\<lparr>channel = SODChannel, head = ''SoD Report - '' @ day,
                 body = [craft_report_section ''SageVue'' (get_sage_vue_status_message s),
                         craft_report_section ''Dante Domain Manager'' (get_ddm_status_message s),
                         craft_report_section ''Fusion'' fu]\<rparr>]\<rparr>))"
  by (simp add: run_report_def Let_def split: sum.splits)

lemma fusion_error_lines_total:
  "list_all (\<lambda>room. 2 < length room) rooms \<Longrightarrow> \<exists>ls. fusion_error_lines rooms = Inr ls"
  by (induction rooms) auto

section \<open>The concrete installation, evaluated\<close>

text \<open>
  What the functions of the script return on the values of the concrete installation.
\<close>

lemmas scenario_defs =
  hall_state_def initial_state_def amp1_down_def amp1_up_def hall_down_def hall_up_def
  answering_def rejecting_def unreachable_def atrium_def sagevue_up_def fusion_up_def
  fusion_down_def busy_cycle_def down_cycle_def outage_cycle_def busy_state_def

lemmas scenario2_defs = scenario_defs sagevue_down_def hall_unanswered_def rejected_cycle_def
  muted_state_def

lemma hall_state_fields:
  "ALERTS_TEMP_IGNORE hall_state = []" "outbox hall_state = []" "console hall_state = []"
  "ALERTS_NOTIF_LIST hall_state = []" "DDM_OFFLINE_LIST hall_state = []"
  "DDM_ERROR_LIST hall_state = []" "DDM_DOMAINS hall_state = [''Hall'']"
  "SageVue_Error_List hall_state = []" "Fusion_Offline_List hall_state = []"
  "Fusion_Error_List hall_state = []" "SEND_ALERTS hall_state"
  by (simp_all add: hall_state_def initial_state_def)

lemma busy_state_fields:
  "DDM_ERROR_LIST busy_state =
     [''Hall - Amp1 has a subscription error.'', ''Hall - Amp1 has a latency error.'']"
  "DDM_OFFLINE_LIST busy_state = [''Hall - Amp1 is offline.'']"
  "DDM_DOMAINS busy_state = [''Hall'']"
  "SageVue_Error_List busy_state = [''Atrium - Fan failure'']"
  "Fusion_Offline_List busy_state = [''Room 101'']"
  by (simp_all add: busy_state_def hall_state_def initial_state_def)

lemma muted_state_fields:
  "DDM_OFFLINE_LIST muted_state = []" "DDM_DOMAINS muted_state = [''Hall'']"
  "ALERTS_TEMP_IGNORE muted_state = [''Amp1'']"
  by (simp_all add: muted_state_def hall_state_def initial_state_def)

lemma ddm_observed_hall_down:
  "ddm_observed hall_down [''Hall''] =
     [(True, ''Hall'', ''Amp1 is offline.''),
      (False, ''Hall'', ''Amp1 has a subscription error.''),
      (False, ''Hall'', ''Amp1 has a latency error.'')]"
  by (simp add: hall_down_def amp1_down_def ddm_faults_of_def)

lemma ddm_thread_hall_down:
  "ddm_thread hall_down hall_state =
     hall_state\<lparr>DDM_ERROR_LIST := [''Hall - Amp1 has a subscription error.'',
                                   ''Hall - Amp1 has a latency error.''],
       DDM_OFFLINE_LIST := [''Hall - Amp1 is offline.''],
       DDM_TEMP_LIST := [''Hall - Amp1 has a subscription error.'',
                         ''Hall - Amp1 has a latency error.''],
       DDM_TEMP_OFFLINE_LIST := [''Hall - Amp1 is offline.''],
       ALERTS_NOTIF_LIST := [''DDM - Hall - Amp1 is offline.'',
                             ''DDM - Hall - Amp1 has a subscription error.'',
                             ''DDM - Hall - Amp1 has a latency error.''],
       DDM_Total_Errors := 2, DDM_Missing_Devices := 1\<rparr>"
  by (simp add: ddm_thread_def ddm_scan_def ddm_prune_def ddm_gauges_def ddm_device_body_def
      ddm_error_block_def add_to_alert_notif_push_def scenario_defs remove_loop_eval Let_def)

lemma ddm_thread_hall_up:
  "ddm_thread hall_up (ddm_thread hall_down hall_state) =
     hall_state\<lparr>DDM_ERROR_LIST := [''Hall - Amp1 has a latency error.''],
       ALERTS_NOTIF_LIST := [''DDM - Hall - Amp1 is offline.'',
                             ''DDM - Hall - Amp1 has a subscription error.'',
                             ''DDM - Hall - Amp1 has a latency error.''],
       DDM_Total_Errors := 1\<rparr>"
  unfolding ddm_thread_hall_down
  by (simp add: ddm_thread_def ddm_scan_def ddm_prune_def ddm_gauges_def ddm_device_body_def
      ddm_error_block_def add_to_alert_notif_push_def scenario_defs remove_loop_eval Let_def)

lemma ddm_thread_hall_down_muted:
  "ddm_thread hall_down (hall_state\<lparr>outbox := ob, ALERTS_TEMP_IGNORE := [''Amp1'']\<rparr>) =
     (ddm_thread hall_down hall_state)
       \<lparr>ALERTS_TEMP_IGNORE := [''Amp1''], ALERTS_NOTIF_LIST := [], outbox := ob\<rparr>"
  unfolding ddm_thread_hall_down
  by (simp add: ddm_thread_def ddm_scan_def ddm_prune_def ddm_gauges_def ddm_device_body_def
        ddm_error_block_def add_to_alert_notif_push_def scenario_defs remove_loop_eval Let_def)

lemma ddm_thread_muted_state:
  "ddm_thread hall_down muted_state =
     (ddm_thread hall_down hall_state)\<lparr>ALERTS_TEMP_IGNORE := [''Amp1''], ALERTS_NOTIF_LIST := []\<rparr>"
  unfolding ddm_thread_hall_down muted_state_def
  by (simp add: ddm_thread_def ddm_scan_def ddm_prune_def ddm_gauges_def ddm_device_body_def
        ddm_error_block_def add_to_alert_notif_push_def scenario_defs remove_loop_eval Let_def)

lemma expired_state_fields:
  "DDM_OFFLINE_LIST expired_state = [''Hall - Amp1 is offline.'']"
  "DDM_DOMAINS expired_state = [''Hall'']"
  "ALERTS_TEMP_IGNORE expired_state = []"
  "ALERTS_NOTIF_LIST expired_state = []"
  unfolding expired_state_def ddm_thread_muted_state ddm_thread_hall_down
  by (simp_all add: hall_state_fields)

lemma sagevue_observed_atrium:
  "sagevue_observed atrium = [(''Atrium'', ''DAN1 mute active''), (''Atrium'', ''Fan failure'')]"
  by (simp add: sagevue_observed_def atrium_def)

lemma sagevue_admitted_atrium:
  "filter sagevue_admitted (sagevue_observed atrium) = [(''Atrium'', ''Fan failure'')]"
  by (simp add: sagevue_observed_atrium sagevue_admitted_def)

lemma fusion_admitted_lab: "filter fusion_offline_admitted lab_rooms = [''Room 101'']"
  by (simp add: lab_rooms_def fusion_offline_admitted_def BLACKLISTED_KEYWORDS_def)

lemma fusion_error_loop_lamp:
  "fusion_error_loop lamp_rooms hall_state =
     Inr (hall_state\<lparr>Fusion_Error_List := lamp_rooms,
            ALERTS_NOTIF_LIST := [''Fusion - Room 102 - 2:error lamp'']\<rparr>)"
  by (simp add: lamp_rooms_def add_to_alert_notif_push_def hall_state_def initial_state_def)

lemma fusion_thread_busy:
  "fusion_thread post fusion_up hall_state =
     Inr (hall_state\<lparr>ALERTS_NOTIF_LIST := [''Fusion - Room 101 - Room has gone offline'',
                                            ''Fusion - Room 102 - 2:error lamp''],
            Fusion_Error_List := [[''Room 102'', ''id-102'', ''2:error lamp'']],
            Fusion_Offline_List := [''Room 101'']\<rparr>)"
  by (simp add: fusion_thread_def fusion_offline_phase_def fusion_error_phase_def
      fusion_help_phase_def fusion_rooms_def add_to_alert_notif_push_def BLACKLISTED_KEYWORDS_def
      scenario_defs remove_loop_eval Let_def)

lemma sage_vue_thread_busy:
  "sage_vue_thread sagevue_up
     (hall_state\<lparr>ALERTS_NOTIF_LIST := [''Fusion - Room 101 - Room has gone offline'',
                                       ''Fusion - Room 102 - 2:error lamp''],
            Fusion_Error_List := [[''Room 102'', ''id-102'', ''2:error lamp'']],
            Fusion_Offline_List := [''Room 101'']\<rparr>) =
   hall_state\<lparr>ALERTS_NOTIF_LIST := [''Fusion - Room 101 - Room has gone offline'',
                                     ''Fusion - Room 102 - 2:error lamp'',
                                     ''SageVue - Atrium - Fan failure''],
     SageVue_Error_List := [''Atrium - Fan failure''],
     Sagevue_Total_Errors := 1, Sagevue_Missing_Devices := 4,
     Fusion_Error_List := [[''Room 102'', ''id-102'', ''2:error lamp'']],
     Fusion_Offline_List := [''Room 101'']\<rparr>"
  by (simp add: sage_vue_thread_def sagevue_session_def sagevue_diff_def sagevue_scan_def
      add_to_alert_notif_push_def scenario_defs remove_loop_eval Let_def)

lemma ddm_thread_busy:
  "ddm_thread hall_down
     (hall_state\<lparr>ALERTS_NOTIF_LIST := [''Fusion - Room 101 - Room has gone offline'',
                                     ''Fusion - Room 102 - 2:error lamp'',
                                     ''SageVue - Atrium - Fan failure''],
     SageVue_Error_List := [''Atrium - Fan failure''],
     Sagevue_Total_Errors := 1, Sagevue_Missing_Devices := 4,
     Fusion_Error_List := [[''Room 102'', ''id-102'', ''2:error lamp'']],
     Fusion_Offline_List := [''Room 101'']\<rparr>) = busy_state"
  by (simp add: ddm_thread_def ddm_scan_def ddm_prune_def ddm_gauges_def ddm_device_body_def
      ddm_error_block_def add_to_alert_notif_push_def scenario_defs remove_loop_eval Let_def)

lemma poll_backends_busy:
  "fusion_answers c = fusion_up \<Longrightarrow> sagevue_answers c = sagevue_up \<Longrightarrow> ddm_answers c = hall_down \<Longrightarrow>
     poll_backends c hall_state = busy_state"
  by (simp only: poll_backends_def fusion_thread_busy sum.case sage_vue_thread_busy ddm_thread_busy)

lemma mute_try_zero:
  "mute_try answering (cpython (\<lambda>s. s)) (Some ''Amp1'') ''0'' hall_state =
     Inr (hall_state\<lparr>outbox :=
            [\<lparr>channel = NotifChannel, head = ''Program Notification'',
              body = [MessageBlock ''Muting alerts containing Amp1 for 0 minutes.'']\<rparr>,
             \<lparr>channel = NotifChannel, head = ''Program Notification'',
              body = [MessageBlock ''Alerts containing Amp1 are no longer muted!'']\<rparr>]\<rparr>)"
  by (simp add: mute_try_def send_notification_def answering_def hall_state_def initial_state_def
      Let_def cpython_def py_int_def is_digit_def)

lemma mute_try_zero_polled:
  "mute_try answering (cpython (ddm_thread hall_down)) (Some ''Amp1'') ''0'' hall_state =
     Inr ((ddm_thread hall_down hall_state)\<lparr>ALERTS_TEMP_IGNORE := [], ALERTS_NOTIF_LIST := [],
            outbox :=
            [\<lparr>channel = NotifChannel, head = ''Program Notification'',
              body = [MessageBlock ''Muting alerts containing Amp1 for 0 minutes.'']\<rparr>,
             \<lparr>channel = NotifChannel, head = ''Program Notification'',
              body = [MessageBlock ''Alerts containing Amp1 are no longer muted!'']\<rparr>]\<rparr>)"
  by (simp add: mute_try_def send_notification_def answering_def Let_def hall_state_fields
      ddm_thread_hall_down_muted cpython_def py_int_def is_digit_def)

text \<open>
  Two durations that \<open>str.isnumeric\<close> accepts and the \<open>try\<close> fails on: \<open>int\<close> refuses
  the superscript two, and \<open>time.sleep\<close> refuses 999999999 minutes. Either way the
  keyword has been appended by then, the handler reports an unknown error and returns
  \<open>"Error"\<close>, and the keyword stays muted.
\<close>

lemma mute_superscript_two:
  "isnumeric [CHR 0xB2]
   \<and> mute_thread answering (cpython (\<lambda>s. s)) (Some ''Amp1'', Some [CHR 0xB2]) hall_state =
       Inr (''Error'',
            hall_state\<lparr>outbox :=
              [\<lparr>channel = NotifChannel, head = ''Program Notification'',
                body = [MessageBlock (''Muting alerts containing Amp1 for '' @ [CHR 0xB2]
                                        @ '' minutes.'')]\<rparr>,
               \<lparr>channel = NotifChannel, head = ''Program Notification'',
                body = [MessageBlock ''Unknown error muting alerts containing Amp1.'']\<rparr>],
              ALERTS_TEMP_IGNORE := [''Amp1'']\<rparr>)"
  by (simp add: mute_thread_def mute_try_def isnumeric_def is_numeric_def is_digit_def py_int_def
      send_notification_def answering_def cpython_def hall_state_def initial_state_def Let_def)

lemma mute_overlong_sleep:
  "isnumeric ''999999999''
   \<and> mute_thread answering (cpython (\<lambda>s. s)) (Some ''Amp1'', Some ''999999999'') hall_state =
       Inr (''Error'',
            hall_state\<lparr>outbox :=
              [\<lparr>channel = NotifChannel, head = ''Program Notification'',
                body = [MessageBlock ''Muting alerts containing Amp1 for 999999999 minutes.'']\<rparr>,
               \<lparr>channel = NotifChannel, head = ''Program Notification'',
                body = [MessageBlock ''Unknown error muting alerts containing Amp1.'']\<rparr>],
              ALERTS_TEMP_IGNORE := [''Amp1'']\<rparr>)"
  by (simp add: mute_thread_def mute_try_def isnumeric_def is_numeric_def is_digit_def py_int_def
      send_notification_def answering_def cpython_def hall_state_def initial_state_def Let_def)

section \<open>The specification, claim by claim\<close>

subsection \<open>Newly active faults are handed on exactly once\<close>

text \<open>
  C1. In one cycle's diff step of a backend, the faults handed on as newly active
  (the list \<open>N\<close>: their keys are appended to the stored list, and their lines to the
  pending alerts unless a muted keyword occurs in them) carry every key that is in the
  freshly computed fault set and not in the previously stored list, each exactly once,
  and no key that was stored before. This holds for both lists of the Dante Domain
  Manager, for SageVue and for the offline rooms and the room errors of Fusion; for
  SageVue and Fusion the computed fault set is what their exclusion tests admit.
\<close>

theorem newly_active_exactly_once:
  "(\<exists>N. DDM_OFFLINE_LIST (ddm_scan query s) = DDM_OFFLINE_LIST s @ map ddm_key (filter fst N)
       \<and> DDM_ERROR_LIST (ddm_scan query s) =
           DDM_ERROR_LIST s @ map ddm_key (filter (\<lambda>f. \<not> fst f) N)
       \<and> ALERTS_NOTIF_LIST (ddm_thread query s) =
           ALERTS_NOTIF_LIST s @ map ddm_line (filter (ddm_unmuted (ALERTS_TEMP_IGNORE s)) N)
       \<and> distinct (map ddm_key (filter fst N))
       \<and> set (map ddm_key (filter fst N)) =
           set (DDM_TEMP_OFFLINE_LIST (ddm_thread query s)) - set (DDM_OFFLINE_LIST s)
       \<and> distinct (map ddm_key (filter (\<lambda>f. \<not> fst f) N))
       \<and> set (map ddm_key (filter (\<lambda>f. \<not> fst f) N)) =
           set (DDM_TEMP_LIST (ddm_thread query s)) - set (DDM_ERROR_LIST s))
   \<and> (\<exists>N. fst (sagevue_scan systems s) = map sagevue_key (sagevue_observed systems)
       \<and> SageVue_Error_List (snd (sagevue_scan systems s)) =
           SageVue_Error_List s @ map sagevue_key N
       \<and> ALERTS_NOTIF_LIST (sagevue_diff systems s) =
           ALERTS_NOTIF_LIST s @ map sagevue_line (filter (sagevue_unmuted (ALERTS_TEMP_IGNORE s)) N)
       \<and> distinct (map sagevue_key N)
       \<and> set (map sagevue_key N) =
           set (map sagevue_key (filter sagevue_admitted (sagevue_observed systems)))
           - set (SageVue_Error_List s))
   \<and> (\<exists>N. fst (fusion_offline_loop rooms ([], s)) = rooms
       \<and> Fusion_Offline_List (snd (fusion_offline_loop rooms ([], s))) = Fusion_Offline_List s @ N
       \<and> ALERTS_NOTIF_LIST (fusion_offline_phase rooms s) =
           ALERTS_NOTIF_LIST s
           @ map fusion_offline_line (filter (fusion_offline_unmuted (ALERTS_TEMP_IGNORE s)) N)
       \<and> distinct N
       \<and> set N = set (filter fusion_offline_admitted rooms) - set (Fusion_Offline_List s))
   \<and> (\<forall>s1. fusion_error_loop temp_error s = Inr s1 \<longrightarrow>
        (\<exists>N. Fusion_Error_List s1 = Fusion_Error_List s @ N
         \<and> ALERTS_NOTIF_LIST s1 =
             ALERTS_NOTIF_LIST s
             @ map fusion_error_line (filter (fusion_error_unmuted (ALERTS_TEMP_IGNORE s)) N)
         \<and> distinct N
         \<and> set N = set (filter fusion_error_admitted temp_error) - set (Fusion_Error_List s)))"
proof (intro conjI allI impI)
  show "\<exists>N. DDM_OFFLINE_LIST (ddm_scan query s) = DDM_OFFLINE_LIST s @ map ddm_key (filter fst N)
       \<and> DDM_ERROR_LIST (ddm_scan query s) =
           DDM_ERROR_LIST s @ map ddm_key (filter (\<lambda>f. \<not> fst f) N)
       \<and> ALERTS_NOTIF_LIST (ddm_thread query s) =
           ALERTS_NOTIF_LIST s @ map ddm_line (filter (ddm_unmuted (ALERTS_TEMP_IGNORE s)) N)
       \<and> distinct (map ddm_key (filter fst N))
       \<and> set (map ddm_key (filter fst N)) =
           set (DDM_TEMP_OFFLINE_LIST (ddm_thread query s)) - set (DDM_OFFLINE_LIST s)
       \<and> distinct (map ddm_key (filter (\<lambda>f. \<not> fst f) N))
       \<and> set (map ddm_key (filter (\<lambda>f. \<not> fst f) N)) =
           set (DDM_TEMP_LIST (ddm_thread query s)) - set (DDM_ERROR_LIST s)"
    using ddm_new_offline_keys [of query s] ddm_new_error_keys [of query s]
    by (intro exI [of _ "ddm_new query s"]) (simp add: ddm_scan_fields ddm_thread_fields)
next
  show "\<exists>N. fst (sagevue_scan systems s) = map sagevue_key (sagevue_observed systems)
       \<and> SageVue_Error_List (snd (sagevue_scan systems s)) =
           SageVue_Error_List s @ map sagevue_key N
       \<and> ALERTS_NOTIF_LIST (sagevue_diff systems s) =
           ALERTS_NOTIF_LIST s @ map sagevue_line (filter (sagevue_unmuted (ALERTS_TEMP_IGNORE s)) N)
       \<and> distinct (map sagevue_key N)
       \<and> set (map sagevue_key N) =
           set (map sagevue_key (filter sagevue_admitted (sagevue_observed systems)))
           - set (SageVue_Error_List s)"
    using sagevue_new_keys [of s "sagevue_observed systems"]
    by (intro exI [of _ "sagevue_new s (sagevue_observed systems)"])
       (simp add: sagevue_scan_fields sagevue_diff_fields)
next
  show "\<exists>N. fst (fusion_offline_loop rooms ([], s)) = rooms
       \<and> Fusion_Offline_List (snd (fusion_offline_loop rooms ([], s))) = Fusion_Offline_List s @ N
       \<and> ALERTS_NOTIF_LIST (fusion_offline_phase rooms s) =
           ALERTS_NOTIF_LIST s
           @ map fusion_offline_line (filter (fusion_offline_unmuted (ALERTS_TEMP_IGNORE s)) N)
       \<and> distinct N
       \<and> set N = set (filter fusion_offline_admitted rooms) - set (Fusion_Offline_List s)"
    using fusion_offline_new_keys [of s rooms]
    by (intro exI [of _ "fusion_offline_new s rooms"])
       (simp add: fusion_offline_phase_fields fusion_offline_loop_apply fusion_offline_apply_def)
next
  fix s1 assume "fusion_error_loop temp_error s = Inr s1"
  then have "s1 = fusion_error_apply temp_error s"
    by (rule fusion_error_loop_apply)
  then show "\<exists>N. Fusion_Error_List s1 = Fusion_Error_List s @ N
         \<and> ALERTS_NOTIF_LIST s1 =
             ALERTS_NOTIF_LIST s
             @ map fusion_error_line (filter (fusion_error_unmuted (ALERTS_TEMP_IGNORE s)) N)
         \<and> distinct N
         \<and> set N = set (filter fusion_error_admitted temp_error) - set (Fusion_Error_List s)"
    using fusion_error_new_keys [of s temp_error]
    by (intro exI [of _ "fusion_error_new s temp_error"]) (simp add: fusion_error_apply_def)
qed

theorem newly_active_exactly_once_witness:
  "fusion_error_loop lamp_rooms hall_state =
     Inr (hall_state\<lparr>Fusion_Error_List := lamp_rooms,
            ALERTS_NOTIF_LIST := [''Fusion - Room 102 - 2:error lamp'']\<rparr>)
   \<and> (\<exists>N. Fusion_Error_List (hall_state\<lparr>Fusion_Error_List := lamp_rooms,
            ALERTS_NOTIF_LIST := [''Fusion - Room 102 - 2:error lamp'']\<rparr>)
             = Fusion_Error_List hall_state @ N
         \<and> ALERTS_NOTIF_LIST (hall_state\<lparr>Fusion_Error_List := lamp_rooms,
            ALERTS_NOTIF_LIST := [''Fusion - Room 102 - 2:error lamp'']\<rparr>) =
             ALERTS_NOTIF_LIST hall_state
             @ map fusion_error_line (filter (fusion_error_unmuted (ALERTS_TEMP_IGNORE hall_state)) N)
         \<and> distinct N
         \<and> set N = set (filter fusion_error_admitted lamp_rooms) - set (Fusion_Error_List hall_state))
   \<and> (\<exists>N. DDM_OFFLINE_LIST (ddm_scan hall_down hall_state) =
             DDM_OFFLINE_LIST hall_state @ map ddm_key (filter fst N)
       \<and> DDM_ERROR_LIST (ddm_scan hall_down hall_state) =
           DDM_ERROR_LIST hall_state @ map ddm_key (filter (\<lambda>f. \<not> fst f) N)
       \<and> ALERTS_NOTIF_LIST (ddm_thread hall_down hall_state) =
           ALERTS_NOTIF_LIST hall_state
           @ map ddm_line (filter (ddm_unmuted (ALERTS_TEMP_IGNORE hall_state)) N)
       \<and> distinct (map ddm_key (filter fst N))
       \<and> set (map ddm_key (filter fst N)) =
           set (DDM_TEMP_OFFLINE_LIST (ddm_thread hall_down hall_state))
           - set (DDM_OFFLINE_LIST hall_state)
       \<and> distinct (map ddm_key (filter (\<lambda>f. \<not> fst f) N))
       \<and> set (map ddm_key (filter (\<lambda>f. \<not> fst f) N)) =
           set (DDM_TEMP_LIST (ddm_thread hall_down hall_state)) - set (DDM_ERROR_LIST hall_state))
   \<and> ALERTS_NOTIF_LIST (ddm_thread hall_down hall_state) =
       [''DDM - Hall - Amp1 is offline.'', ''DDM - Hall - Amp1 has a subscription error.'',
        ''DDM - Hall - Amp1 has a latency error.'']"
proof -
  note T = newly_active_exactly_once [of hall_down hall_state atrium lab_rooms lamp_rooms]
  have q: "ALERTS_NOTIF_LIST (ddm_thread hall_down hall_state) =
       [''DDM - Hall - Amp1 is offline.'', ''DDM - Hall - Amp1 has a subscription error.'',
        ''DDM - Hall - Amp1 has a latency error.'']"
    by (simp add: ddm_thread_hall_down)
  from T fusion_error_loop_lamp q show ?thesis by blast
qed

subsection \<open>The stored list after a cycle\<close>

text \<open>
  C2, at two cycles of the Dante Domain Manager. Amp1 reports a subscription and a
  latency error in the first cycle and is healthy in the second. The second cycle
  computes no fault, so the claim has the stored error list empty after it; yet the
  latency error is still stored when the cycle ends and the gauge shows one error.
  Lines 314-316 delete from the list they walk: deleting the first entry moves the
  second one to the index the walk has just left, and the walk ends without looking
  at it.
\<close>

theorem stale_key_survives_diff:
  "DDM_ERROR_LIST (ddm_thread hall_down hall_state) =
     [''Hall - Amp1 has a subscription error.'', ''Hall - Amp1 has a latency error.'']
   \<and> DDM_TEMP_LIST (ddm_thread hall_up (ddm_thread hall_down hall_state)) = []
   \<and> DDM_ERROR_LIST (ddm_thread hall_up (ddm_thread hall_down hall_state)) =
       [''Hall - Amp1 has a latency error.'']
   \<and> DDM_Total_Errors (ddm_thread hall_up (ddm_thread hall_down hall_state)) = 1"
proof (intro conjI)
  show "DDM_ERROR_LIST (ddm_thread hall_down hall_state) =
     [''Hall - Amp1 has a subscription error.'', ''Hall - Amp1 has a latency error.'']"
    by (simp add: ddm_thread_hall_down)
  show "DDM_TEMP_LIST (ddm_thread hall_up (ddm_thread hall_down hall_state)) = []"
    by (simp only: ddm_thread_hall_up) (simp add: hall_state_def initial_state_def)
  show "DDM_ERROR_LIST (ddm_thread hall_up (ddm_thread hall_down hall_state)) =
       [''Hall - Amp1 has a latency error.'']"
    by (simp only: ddm_thread_hall_up) simp
  show "DDM_Total_Errors (ddm_thread hall_up (ddm_thread hall_down hall_state)) = 1"
    by (simp only: ddm_thread_hall_up) simp
qed

text \<open>
  What the diff step does establish, whatever the walk skips. After the diff step of a
  cycle the stored list holds every key of the freshly computed set (for SageVue: every
  key the exclusion test admits, and every stored key that is still reported), and
  nothing but keys that were stored before or are in the computed set; the alerts queued
  in the cycle are lines of faults in the computed set, so none is queued for a key that
  was dropped.
\<close>

theorem stored_list_after_diff:
  "DDM_ERROR_LIST (ddm_thread query s) =
      remove_loop 0 (DDM_ERROR_LIST (ddm_scan query s)) (DDM_TEMP_LIST (ddm_scan query s))
   \<and> set (DDM_TEMP_LIST (ddm_thread query s)) \<subseteq> set (DDM_ERROR_LIST (ddm_thread query s))
   \<and> set (DDM_ERROR_LIST (ddm_thread query s))
        \<subseteq> set (DDM_ERROR_LIST s) \<union> set (DDM_TEMP_LIST (ddm_thread query s))
   \<and> DDM_OFFLINE_LIST (ddm_thread query s) =
      remove_loop 0 (DDM_OFFLINE_LIST (ddm_scan query s)) (DDM_TEMP_OFFLINE_LIST (ddm_scan query s))
   \<and> set (DDM_TEMP_OFFLINE_LIST (ddm_thread query s)) \<subseteq> set (DDM_OFFLINE_LIST (ddm_thread query s))
   \<and> set (DDM_OFFLINE_LIST (ddm_thread query s))
        \<subseteq> set (DDM_OFFLINE_LIST s) \<union> set (DDM_TEMP_OFFLINE_LIST (ddm_thread query s))
   \<and> (\<exists>N. ALERTS_NOTIF_LIST (ddm_thread query s) =
             ALERTS_NOTIF_LIST s @ map ddm_line (filter (ddm_unmuted (ALERTS_TEMP_IGNORE s)) N)
         \<and> set (map ddm_key (filter fst N)) \<subseteq> set (DDM_TEMP_OFFLINE_LIST (ddm_thread query s))
         \<and> set (map ddm_key (filter (\<lambda>f. \<not> fst f) N)) \<subseteq> set (DDM_TEMP_LIST (ddm_thread query s)))
   \<and> SageVue_Error_List (sagevue_diff systems s) =
      remove_loop 0 (SageVue_Error_List (snd (sagevue_scan systems s))) (fst (sagevue_scan systems s))
   \<and> set (map sagevue_key (filter sagevue_admitted (sagevue_observed systems)))
        \<subseteq> set (SageVue_Error_List (sagevue_diff systems s))
   \<and> set (SageVue_Error_List s) \<inter> set (fst (sagevue_scan systems s))
        \<subseteq> set (SageVue_Error_List (sagevue_diff systems s))
   \<and> set (SageVue_Error_List (sagevue_diff systems s))
        \<subseteq> set (SageVue_Error_List s)
          \<union> set (map sagevue_key (filter sagevue_admitted (sagevue_observed systems)))
   \<and> (\<exists>N. ALERTS_NOTIF_LIST (sagevue_diff systems s) =
             ALERTS_NOTIF_LIST s @ map sagevue_line (filter (sagevue_unmuted (ALERTS_TEMP_IGNORE s)) N)
         \<and> set (map sagevue_key N) \<subseteq> set (fst (sagevue_scan systems s)))"
proof (intro conjI)
  let ?E = "DDM_ERROR_LIST (ddm_scan query s)" and ?TE = "DDM_TEMP_LIST (ddm_scan query s)"
  let ?O = "DDM_OFFLINE_LIST (ddm_scan query s)" and ?TO = "DDM_TEMP_OFFLINE_LIST (ddm_scan query s)"
  have E: "set ?E = set (DDM_ERROR_LIST s) \<union> set ?TE"
    unfolding ddm_scan_fields(2) set_append ddm_new_error_keys(2) by auto
  have O: "set ?O = set (DDM_OFFLINE_LIST s) \<union> set ?TO"
    unfolding ddm_scan_fields(1) set_append ddm_new_offline_keys(2) by auto
  show "DDM_ERROR_LIST (ddm_thread query s) = remove_loop 0 ?E ?TE"
    by (rule ddm_thread_fields)
  show "DDM_OFFLINE_LIST (ddm_thread query s) = remove_loop 0 ?O ?TO"
    by (rule ddm_thread_fields)
  show "set (DDM_TEMP_LIST (ddm_thread query s)) \<subseteq> set (DDM_ERROR_LIST (ddm_thread query s))"
    unfolding ddm_thread_fields using remove_loop_between [of ?E ?TE] E by auto
  show "set (DDM_ERROR_LIST (ddm_thread query s))
        \<subseteq> set (DDM_ERROR_LIST s) \<union> set (DDM_TEMP_LIST (ddm_thread query s))"
    unfolding ddm_thread_fields using remove_loop_between [of ?E ?TE] E by auto
  show "set (DDM_TEMP_OFFLINE_LIST (ddm_thread query s)) \<subseteq> set (DDM_OFFLINE_LIST (ddm_thread query s))"
    unfolding ddm_thread_fields using remove_loop_between [of ?O ?TO] O by auto
  show "set (DDM_OFFLINE_LIST (ddm_thread query s))
        \<subseteq> set (DDM_OFFLINE_LIST s) \<union> set (DDM_TEMP_OFFLINE_LIST (ddm_thread query s))"
    unfolding ddm_thread_fields using remove_loop_between [of ?O ?TO] O by auto
  show "\<exists>N. ALERTS_NOTIF_LIST (ddm_thread query s) =
             ALERTS_NOTIF_LIST s @ map ddm_line (filter (ddm_unmuted (ALERTS_TEMP_IGNORE s)) N)
         \<and> set (map ddm_key (filter fst N)) \<subseteq> set (DDM_TEMP_OFFLINE_LIST (ddm_thread query s))
         \<and> set (map ddm_key (filter (\<lambda>f. \<not> fst f) N)) \<subseteq> set (DDM_TEMP_LIST (ddm_thread query s))"
    using ddm_new_key_sets [of query s]
    by (intro exI [of _ "ddm_new query s"]) (simp add: ddm_thread_fields(5) ddm_scan_fields(5))
next
  let ?N = "sagevue_new s (sagevue_observed systems)"
  let ?L = "SageVue_Error_List (snd (sagevue_scan systems s))" and ?T = "fst (sagevue_scan systems s)"
  have L: "set ?L = set (SageVue_Error_List s)
      \<union> set (map sagevue_key (filter sagevue_admitted (sagevue_observed systems)))"
    unfolding sagevue_scan_fields(2) set_append sagevue_new_keys(2) by auto
  have T: "set (map sagevue_key (filter sagevue_admitted (sagevue_observed systems))) \<subseteq> set ?T"
    unfolding sagevue_scan_fields(1) by auto
  show "SageVue_Error_List (sagevue_diff systems s) = remove_loop 0 ?L ?T"
    by (rule sagevue_diff_fields)
  show "set (map sagevue_key (filter sagevue_admitted (sagevue_observed systems)))
        \<subseteq> set (SageVue_Error_List (sagevue_diff systems s))"
    unfolding sagevue_diff_fields(1) using remove_loop_between [of ?L ?T] L T by blast
  show "set (SageVue_Error_List s) \<inter> set (fst (sagevue_scan systems s))
        \<subseteq> set (SageVue_Error_List (sagevue_diff systems s))"
    unfolding sagevue_diff_fields(1) using remove_loop_between [of ?L ?T] L by blast
  show "set (SageVue_Error_List (sagevue_diff systems s))
        \<subseteq> set (SageVue_Error_List s)
          \<union> set (map sagevue_key (filter sagevue_admitted (sagevue_observed systems)))"
    unfolding sagevue_diff_fields(1) using remove_loop_between [of ?L ?T] L by blast
  have "set (map sagevue_key ?N) \<subseteq> set ?T"
    unfolding sagevue_new_keys(2) using T by blast
  then show "\<exists>N. ALERTS_NOTIF_LIST (sagevue_diff systems s) =
             ALERTS_NOTIF_LIST s @ map sagevue_line (filter (sagevue_unmuted (ALERTS_TEMP_IGNORE s)) N)
         \<and> set (map sagevue_key N) \<subseteq> set (fst (sagevue_scan systems s))"
    by (intro exI [of _ ?N]) (simp add: sagevue_diff_fields(2) sagevue_scan_fields(3))
qed

theorem stored_list_after_diff_witness:
  "set (DDM_TEMP_LIST (ddm_thread hall_down hall_state))
     \<subseteq> set (DDM_ERROR_LIST (ddm_thread hall_down hall_state))
   \<and> set (DDM_ERROR_LIST (ddm_thread hall_up (ddm_thread hall_down hall_state)))
       \<subseteq> set (DDM_ERROR_LIST (ddm_thread hall_down hall_state))
         \<union> set (DDM_TEMP_LIST (ddm_thread hall_up (ddm_thread hall_down hall_state)))
   \<and> set (map sagevue_key (filter sagevue_admitted (sagevue_observed atrium)))
        \<subseteq> set (SageVue_Error_List (sagevue_diff atrium hall_state))"
proof (intro conjI)
  note A = stored_list_after_diff [of hall_down hall_state atrium]
  note B = stored_list_after_diff [of hall_up "ddm_thread hall_down hall_state" atrium]
  show "set (DDM_TEMP_LIST (ddm_thread hall_down hall_state))
     \<subseteq> set (DDM_ERROR_LIST (ddm_thread hall_down hall_state))"
    by (rule A [THEN conjunct2, THEN conjunct1])
  show "set (DDM_ERROR_LIST (ddm_thread hall_up (ddm_thread hall_down hall_state)))
       \<subseteq> set (DDM_ERROR_LIST (ddm_thread hall_down hall_state))
         \<union> set (DDM_TEMP_LIST (ddm_thread hall_up (ddm_thread hall_down hall_state)))"
    by (rule B [THEN conjunct2, THEN conjunct2, THEN conjunct1])
  show "set (map sagevue_key (filter sagevue_admitted (sagevue_observed atrium)))
        \<subseteq> set (SageVue_Error_List (sagevue_diff atrium hall_state))"
    by (rule A [THEN conjunct2, THEN conjunct2, THEN conjunct2, THEN conjunct2, THEN conjunct2,
          THEN conjunct2, THEN conjunct2, THEN conjunct2, THEN conjunct1])
qed

subsection \<open>One backend failing\<close>

text \<open>
  C3, at a cycle in which the Fusion database refuses the connection while SageVue and
  the Dante Domain Manager answer as in \<open>busy_cycle\<close>: the exception of \<open>fusion_thread\<close>
  is echoed and neither of the other two backends is polled, so their lists and gauges
  stay as they were. With the database up, the same answers are processed; and when it
  is SageVue or the Dante Domain Manager that does not answer, the handler inside that
  function echoes the exception and the other backends are polled.
\<close>

theorem fusion_failure_skips_other_backends:
  "poll_backends outage_cycle hall_state =
     hall_state\<lparr>console := [DatabaseError ''connection refused'']\<rparr>
   \<and> poll_backends busy_cycle hall_state = busy_state
   \<and> poll_backends (busy_cycle\<lparr>sagevue_answers := sagevue_down\<rparr>) hall_state =
       busy_state\<lparr>ALERTS_NOTIF_LIST := [''Fusion - Room 101 - Room has gone offline'',
                                         ''Fusion - Room 102 - 2:error lamp'',
                                         ''DDM - Hall - Amp1 is offline.'',
                                         ''DDM - Hall - Amp1 has a subscription error.'',
                                         ''DDM - Hall - Amp1 has a latency error.''],
         SageVue_Error_List := [], Sagevue_Total_Errors := 0, Sagevue_Missing_Devices := 0,
         console := [RequestException ''timed out'']\<rparr>
   \<and> poll_backends (busy_cycle\<lparr>ddm_answers := hall_unanswered\<rparr>) hall_state =
       busy_state\<lparr>ALERTS_NOTIF_LIST := [''Fusion - Room 101 - Room has gone offline'',
                                         ''Fusion - Room 102 - 2:error lamp'',
                                         ''SageVue - Atrium - Fan failure''],
         DDM_ERROR_LIST := [], DDM_OFFLINE_LIST := [], DDM_TEMP_LIST := [],
         DDM_TEMP_OFFLINE_LIST := [], DDM_Total_Errors := 0, DDM_Missing_Devices := 0,
         console := [UnexpectedStatus 503]\<rparr>"
proof (intro conjI)
  show "poll_backends outage_cycle hall_state =
     hall_state\<lparr>console := [DatabaseError ''connection refused'']\<rparr>"
    by (simp add: poll_backends_def fusion_thread_def echo_def scenario2_defs)
  show "poll_backends busy_cycle hall_state = busy_state"
    by (rule poll_backends_busy) (simp_all add: busy_cycle_def)
  show "poll_backends (busy_cycle\<lparr>sagevue_answers := sagevue_down\<rparr>) hall_state =
       busy_state\<lparr>ALERTS_NOTIF_LIST := [''Fusion - Room 101 - Room has gone offline'',
                                         ''Fusion - Room 102 - 2:error lamp'',
                                         ''DDM - Hall - Amp1 is offline.'',
                                         ''DDM - Hall - Amp1 has a subscription error.'',
                                         ''DDM - Hall - Amp1 has a latency error.''],
         SageVue_Error_List := [], Sagevue_Total_Errors := 0, Sagevue_Missing_Devices := 0,
         console := [RequestException ''timed out'']\<rparr>"
    by (simp add: poll_backends_def busy_cycle_def fusion_thread_busy)
       (simp add: sage_vue_thread_def sagevue_session_def echo_def
          ddm_thread_def ddm_scan_def ddm_prune_def ddm_gauges_def ddm_device_body_def
          ddm_error_block_def add_to_alert_notif_push_def scenario2_defs remove_loop_eval Let_def)
  show "poll_backends (busy_cycle\<lparr>ddm_answers := hall_unanswered\<rparr>) hall_state =
       busy_state\<lparr>ALERTS_NOTIF_LIST := [''Fusion - Room 101 - Room has gone offline'',
                                         ''Fusion - Room 102 - 2:error lamp'',
                                         ''SageVue - Atrium - Fan failure''],
         DDM_ERROR_LIST := [], DDM_OFFLINE_LIST := [], DDM_TEMP_LIST := [],
         DDM_TEMP_OFFLINE_LIST := [], DDM_Total_Errors := 0, DDM_Missing_Devices := 0,
         console := [UnexpectedStatus 503]\<rparr>"
    by (simp only: poll_backends_def busy_cycle_def cycle.simps fusion_thread_busy sum.case
          sage_vue_thread_busy)
       (simp add: ddm_thread_def ddm_scan_def ddm_prune_def ddm_gauges_def
          scenario2_defs remove_loop_eval Let_def)
qed

subsection \<open>A failed delivery\<close>

text \<open>
  C4, at a round whose webhook cannot be reached. With alerting enabled and six alerts
  pending, \<open>requests.post\<close> raises inside \<open>send_alert_notif\<close>, which the poll loop calls
  outside its \<open>try\<close>. The exception leaves the loop: the round after it is never run,
  the pending alerts are still in the list and nothing has been echoed, where the claim
  has the failure logged, the list cleared and the loop going on. An exception of a
  backend, raised inside the \<open>try\<close> of the same loop, is echoed and the loop goes on
  to the next round.
\<close>

theorem raising_send_ends_poll_loop:
  "prog_loop [down_cycle, busy_cycle] hall_state = Inl (RequestException ''timed out'', busy_state)
   \<and> length (ALERTS_NOTIF_LIST busy_state) = 6
   \<and> console busy_state = []
   \<and> prog_loop [outage_cycle, outage_cycle] hall_state =
       Inr (hall_state\<lparr>console := [DatabaseError ''connection refused'',
                                    DatabaseError ''connection refused'']\<rparr>)"
proof -
  have "poll_backends down_cycle hall_state = busy_state"
    by (rule poll_backends_busy) (simp_all add: down_cycle_def busy_cycle_def)
  then have "prog_cycle down_cycle hall_state = Inl (RequestException ''timed out'', busy_state)"
    by (simp add: prog_cycle_def send_alert_notif_def Let_def)
       (simp add: scenario_defs)
  then have first: "prog_loop [down_cycle, busy_cycle] hall_state =
      Inl (RequestException ''timed out'', busy_state)
   \<and> length (ALERTS_NOTIF_LIST busy_state) = 6
   \<and> console busy_state = []"
    by (simp add: busy_state_def hall_state_def initial_state_def)
  have second: "prog_loop [outage_cycle, outage_cycle] hall_state =
       Inr (hall_state\<lparr>console := [DatabaseError ''connection refused'',
                                    DatabaseError ''connection refused'']\<rparr>)"
    by (simp add: prog_cycle_def poll_backends_def fusion_thread_def echo_def
          send_alert_notif_def scenario2_defs)
  from first second show ?thesis by simp
qed

text \<open>
  A send that returns. When the webhook answers, with whatever status code (the
  script does not look at it), the flush returns with the pending list empty and
  nothing echoed, and the round goes on to the scheduled jobs; a run of rounds whose
  webhook answers and that have no job due never leaves the loop, and ends each round
  with the pending list empty.
\<close>

theorem flush_clears_when_send_returns:
  "((\<forall>m. \<exists>code. webhook c m = Inr code) \<longrightarrow>
      (\<exists>s'. send_alert_notif (webhook c) (poll_backends c s) = Inr s'
          \<and> ALERTS_NOTIF_LIST s' = []
          \<and> console s' = console (poll_backends c s)
          \<and> prog_cycle c s = run_pending c (due_jobs c) s'))
   \<and> (list_all (\<lambda>c. (\<forall>m. \<exists>code. webhook c m = Inr code) \<and> due_jobs c = []) cycles \<longrightarrow>
      (\<exists>s'. prog_loop cycles s = Inr s' \<and> (cycles \<noteq> [] \<longrightarrow> ALERTS_NOTIF_LIST s' = [])))"
proof (intro conjI impI)
  assume "\<forall>m. \<exists>code. webhook c m = Inr code"
  then obtain s' where s': "send_alert_notif (webhook c) (poll_backends c s) = Inr s'"
    "ALERTS_NOTIF_LIST s' = []" "console s' = console (poll_backends c s)"
    using send_alert_notif_returns by blast
  then have "prog_cycle c s = run_pending c (due_jobs c) s'"
    by (simp add: prog_cycle_def)
  with s' show "\<exists>s'. send_alert_notif (webhook c) (poll_backends c s) = Inr s'
          \<and> ALERTS_NOTIF_LIST s' = []
          \<and> console s' = console (poll_backends c s)
          \<and> prog_cycle c s = run_pending c (due_jobs c) s'"
    by blast
next
  assume "list_all (\<lambda>c. (\<forall>m. \<exists>code. webhook c m = Inr code) \<and> due_jobs c = []) cycles"
  then show "\<exists>s'. prog_loop cycles s = Inr s' \<and> (cycles \<noteq> [] \<longrightarrow> ALERTS_NOTIF_LIST s' = [])"
    by (rule prog_loop_continues)
qed

theorem flush_clears_when_send_returns_witness:
  "(\<forall>m. \<exists>code. webhook rejected_cycle m = Inr code)
   \<and> webhook rejected_cycle = (\<lambda>m. Inr 500)
   \<and> due_jobs rejected_cycle = []
   \<and> (\<exists>s'. send_alert_notif (webhook rejected_cycle) (poll_backends rejected_cycle hall_state) = Inr s'
          \<and> ALERTS_NOTIF_LIST s' = []
          \<and> console s' = console (poll_backends rejected_cycle hall_state)
          \<and> prog_cycle rejected_cycle hall_state = run_pending rejected_cycle (due_jobs rejected_cycle) s')
   \<and> (\<exists>s'. prog_loop [rejected_cycle, rejected_cycle] hall_state = Inr s' \<and> ALERTS_NOTIF_LIST s' = [])"
proof -
  have a: "\<forall>m. \<exists>code. webhook rejected_cycle m = Inr code"
    and b: "webhook rejected_cycle = (\<lambda>m. Inr 500)"
    and c: "due_jobs rejected_cycle = []"
    by (simp_all add: rejected_cycle_def busy_cycle_def rejecting_def)
  from a c have d: "list_all (\<lambda>c. (\<forall>m. \<exists>code. webhook c m = Inr code) \<and> due_jobs c = [])
      [rejected_cycle, rejected_cycle]"
    by simp
  from flush_clears_when_send_returns [of rejected_cycle hall_state "[rejected_cycle, rejected_cycle]"]
    a b c d show ?thesis by blast
qed

subsection \<open>Validation of the mute duration\<close>

text \<open>
  C5 fails at the duration "0": it is numeric, so the request is not rejected although
  zero is not a positive number of minutes. The thread announces the mute, adds the
  keyword, sleeps for zero seconds and removes it again; a poll of the Dante Domain
  Manager that runs in between stores the faults of Amp1 and queues none of them.
\<close>

theorem zero_minutes_is_accepted:
  "isnumeric ''0'' \<and> py_int 4300 ''0'' = Inr 0
   \<and> mute_thread answering (cpython (\<lambda>s. s)) (Some ''Amp1'', Some ''0'') hall_state =
       Inr (''Success'',
            hall_state\<lparr>outbox :=
              [\<lparr>channel = NotifChannel, head = ''Program Notification'',
                body = [MessageBlock ''Muting alerts containing Amp1 for 0 minutes.'']\<rparr>,
               \<lparr>channel = NotifChannel, head = ''Program Notification'',
                body = [MessageBlock ''Alerts containing Amp1 are no longer muted!'']\<rparr>]\<rparr>)
   \<and> mute_thread answering (cpython (ddm_thread hall_down)) (Some ''Amp1'', Some ''0'') hall_state =
       Inr (''Success'',
            (ddm_thread hall_down hall_state)\<lparr>ALERTS_TEMP_IGNORE := [], ALERTS_NOTIF_LIST := [],
              outbox :=
              [\<lparr>channel = NotifChannel, head = ''Program Notification'',
                body = [MessageBlock ''Muting alerts containing Amp1 for 0 minutes.'']\<rparr>,
               \<lparr>channel = NotifChannel, head = ''Program Notification'',
                body = [MessageBlock ''Alerts containing Amp1 are no longer muted!'']\<rparr>]\<rparr>)"
proof (intro conjI)
  show numeric: "isnumeric ''0''" by (simp add: isnumeric_def is_numeric_def is_digit_def)
  show "py_int 4300 ''0'' = Inr 0" by (simp add: py_int_def is_digit_def)
  show "mute_thread answering (cpython (\<lambda>s. s)) (Some ''Amp1'', Some ''0'') hall_state =
       Inr (''Success'',
            hall_state\<lparr>outbox :=
              [\<lparr>channel = NotifChannel, head = ''Program Notification'',
                body = [MessageBlock ''Muting alerts containing Amp1 for 0 minutes.'']\<rparr>,
               \<lparr>channel = NotifChannel, head = ''Program Notification'',
                body = [MessageBlock ''Alerts containing Amp1 are no longer muted!'']\<rparr>]\<rparr>)"
    by (simp add: mute_thread_def numeric mute_try_zero)
  show "mute_thread answering (cpython (ddm_thread hall_down)) (Some ''Amp1'', Some ''0'') hall_state =
       Inr (''Success'',
            (ddm_thread hall_down hall_state)\<lparr>ALERTS_TEMP_IGNORE := [], ALERTS_NOTIF_LIST := [],
              outbox :=
              [\<lparr>channel = NotifChannel, head = ''Program Notification'',
                body = [MessageBlock ''Muting alerts containing Amp1 for 0 minutes.'']\<rparr>,
               \<lparr>channel = NotifChannel, head = ''Program Notification'',
                body = [MessageBlock ''Alerts containing Amp1 are no longer muted!'']\<rparr>]\<rparr>)"
    by (simp add: mute_thread_def numeric mute_try_zero_polled)
qed

text \<open>
  C5, as the code has it. A duration that \<open>str.isnumeric\<close> refuses, the empty string or
  one with a character that is not numeric, is rejected: the only thing the thread does
  is send "Cannot mute alerts containing ... - time parameter is invalid." on the
  notification channel, and whether that send returns or raises, the muted keywords and
  all other globals are what they were. When the send returns, the function returns
  \<open>"Success"\<close>.
\<close>

theorem mute_rejects_non_numeric_duration:
  assumes "\<not> isnumeric t"
  shows "(\<forall>e s'. mute_thread post rt (Some k, Some t) s = Inl (e, s') \<longrightarrow> s' = s)
     \<and> (\<forall>r s'. mute_thread post rt (Some k, Some t) s = Inr (r, s') \<longrightarrow>
          r = ''Success''
          \<and> s' = s\<lparr>outbox := outbox s @ [invalid_time_message k]\<rparr>
          \<and> ALERTS_TEMP_IGNORE s' = ALERTS_TEMP_IGNORE s)
     \<and> ((\<exists>code. post (invalid_time_message k) = Inr code) \<longrightarrow>
          mute_thread post rt (Some k, Some t) s =
            Inr (''Success'', s\<lparr>outbox := outbox s @ [invalid_time_message k]\<rparr>))"
  using assms
  by (auto simp: mute_thread_def send_notification_def invalid_time_message_def Let_def
      split: sum.splits)

theorem mute_rejects_non_numeric_duration_witness:
  "\<not> isnumeric ''abc''
   \<and> (\<exists>code. answering (invalid_time_message ''Amp1'') = Inr code)
   \<and> mute_thread answering (cpython (ddm_thread hall_down)) (Some ''Amp1'', Some ''abc'') hall_state =
       Inr (''Success'', hall_state\<lparr>outbox := outbox hall_state @ [invalid_time_message ''Amp1'']\<rparr>)"
proof -
  have a: "\<not> isnumeric ''abc''"
    by (simp add: isnumeric_def is_numeric_def is_digit_def)
  have b: "\<exists>code. answering (invalid_time_message ''Amp1'') = Inr code"
    by (simp add: answering_def)
  from mute_rejects_non_numeric_duration
         [OF a, of answering "cpython (ddm_thread hall_down)" "''Amp1''" hall_state]
    a b show ?thesis by blast
qed

subsection \<open>An empty stored list\<close>

text \<open>
  C6. Against an empty stored list every fault of the freshly computed set is newly
  active: after the cycle the stored list is the list \<open>N\<close> of the newly active
  faults, free of repetitions, and holds exactly the keys of the computed set, while the
  pending alerts have grown by the lines of \<open>N\<close> that no muted keyword hides. Shown for
  the offline list and the error list of the Dante Domain Manager, for SageVue and for
  the offline rooms of Fusion (where the computed set is what the exclusion test
  admits).
\<close>

theorem empty_previous_all_new:
  "(DDM_OFFLINE_LIST s = [] \<longrightarrow>
      (\<exists>N. ALERTS_NOTIF_LIST (ddm_thread query s) =
              ALERTS_NOTIF_LIST s @ map ddm_line (filter (ddm_unmuted (ALERTS_TEMP_IGNORE s)) N)
          \<and> DDM_OFFLINE_LIST (ddm_thread query s) = map ddm_key (filter fst N)
          \<and> distinct (DDM_OFFLINE_LIST (ddm_thread query s))
          \<and> set (DDM_OFFLINE_LIST (ddm_thread query s)) =
              set (DDM_TEMP_OFFLINE_LIST (ddm_thread query s))))
   \<and> (DDM_ERROR_LIST s = [] \<longrightarrow>
      (\<exists>N. ALERTS_NOTIF_LIST (ddm_thread query s) =
              ALERTS_NOTIF_LIST s @ map ddm_line (filter (ddm_unmuted (ALERTS_TEMP_IGNORE s)) N)
          \<and> DDM_ERROR_LIST (ddm_thread query s) = map ddm_key (filter (\<lambda>f. \<not> fst f) N)
          \<and> distinct (DDM_ERROR_LIST (ddm_thread query s))
          \<and> set (DDM_ERROR_LIST (ddm_thread query s)) = set (DDM_TEMP_LIST (ddm_thread query s))))
   \<and> (SageVue_Error_List s = [] \<longrightarrow>
      (\<exists>N. ALERTS_NOTIF_LIST (sagevue_diff systems s) =
              ALERTS_NOTIF_LIST s @ map sagevue_line (filter (sagevue_unmuted (ALERTS_TEMP_IGNORE s)) N)
          \<and> SageVue_Error_List (sagevue_diff systems s) = map sagevue_key N
          \<and> distinct (SageVue_Error_List (sagevue_diff systems s))
          \<and> set (SageVue_Error_List (sagevue_diff systems s)) =
              set (map sagevue_key (filter sagevue_admitted (sagevue_observed systems)))))
   \<and> (Fusion_Offline_List s = [] \<longrightarrow>
      (\<exists>N. ALERTS_NOTIF_LIST (fusion_offline_phase rooms s) =
              ALERTS_NOTIF_LIST s
              @ map fusion_offline_line (filter (fusion_offline_unmuted (ALERTS_TEMP_IGNORE s)) N)
          \<and> Fusion_Offline_List (fusion_offline_phase rooms s) = N
          \<and> distinct N
          \<and> set N = set (filter fusion_offline_admitted rooms)))"
proof (intro conjI impI)
  assume e: "DDM_OFFLINE_LIST s = []"
  let ?N = "ddm_new query s"
  have keys: "set (map ddm_key (filter fst ?N)) = set (DDM_TEMP_OFFLINE_LIST (ddm_scan query s))"
    using ddm_new_offline_keys(2) [of query s] e by simp
  have stored: "DDM_OFFLINE_LIST (ddm_thread query s) = map ddm_key (filter fst ?N)"
    unfolding ddm_thread_fields
    using keys e by (simp add: ddm_scan_fields(1) remove_loop_id)
  show "\<exists>N. ALERTS_NOTIF_LIST (ddm_thread query s) =
              ALERTS_NOTIF_LIST s @ map ddm_line (filter (ddm_unmuted (ALERTS_TEMP_IGNORE s)) N)
          \<and> DDM_OFFLINE_LIST (ddm_thread query s) = map ddm_key (filter fst N)
          \<and> distinct (DDM_OFFLINE_LIST (ddm_thread query s))
          \<and> set (DDM_OFFLINE_LIST (ddm_thread query s)) =
              set (DDM_TEMP_OFFLINE_LIST (ddm_thread query s))"
    unfolding stored
    using keys ddm_new_offline_keys(1) [of query s]
    by (intro exI [of _ ?N]) (simp add: ddm_thread_fields(3,5) ddm_scan_fields(5))
next
  assume e: "DDM_ERROR_LIST s = []"
  let ?N = "ddm_new query s"
  have keys: "set (map ddm_key (filter (\<lambda>f. \<not> fst f) ?N)) = set (DDM_TEMP_LIST (ddm_scan query s))"
    using ddm_new_error_keys(2) [of query s] e by simp
  have stored: "DDM_ERROR_LIST (ddm_thread query s) = map ddm_key (filter (\<lambda>f. \<not> fst f) ?N)"
    unfolding ddm_thread_fields
    using keys e by (simp add: ddm_scan_fields(2) remove_loop_id)
  show "\<exists>N. ALERTS_NOTIF_LIST (ddm_thread query s) =
              ALERTS_NOTIF_LIST s @ map ddm_line (filter (ddm_unmuted (ALERTS_TEMP_IGNORE s)) N)
          \<and> DDM_ERROR_LIST (ddm_thread query s) = map ddm_key (filter (\<lambda>f. \<not> fst f) N)
          \<and> distinct (DDM_ERROR_LIST (ddm_thread query s))
          \<and> set (DDM_ERROR_LIST (ddm_thread query s)) = set (DDM_TEMP_LIST (ddm_thread query s))"
    unfolding stored
    using keys ddm_new_error_keys(1) [of query s]
    by (intro exI [of _ ?N]) (simp add: ddm_thread_fields(4,5) ddm_scan_fields(5))
next
  assume e: "SageVue_Error_List s = []"
  let ?N = "sagevue_new s (sagevue_observed systems)"
  have keys: "set (map sagevue_key ?N) =
      set (map sagevue_key (filter sagevue_admitted (sagevue_observed systems)))"
    using sagevue_new_keys(2) [of s "sagevue_observed systems"] e by simp
  have "set (map sagevue_key ?N) \<subseteq> set (map sagevue_key (sagevue_observed systems))"
    unfolding keys by auto
  then have stored: "SageVue_Error_List (sagevue_diff systems s) = map sagevue_key ?N"
    unfolding sagevue_diff_fields sagevue_scan_fields
    using e by (simp add: remove_loop_id)
  show "\<exists>N. ALERTS_NOTIF_LIST (sagevue_diff systems s) =
              ALERTS_NOTIF_LIST s @ map sagevue_line (filter (sagevue_unmuted (ALERTS_TEMP_IGNORE s)) N)
          \<and> SageVue_Error_List (sagevue_diff systems s) = map sagevue_key N
          \<and> distinct (SageVue_Error_List (sagevue_diff systems s))
          \<and> set (SageVue_Error_List (sagevue_diff systems s)) =
              set (map sagevue_key (filter sagevue_admitted (sagevue_observed systems)))"
    unfolding stored
    using keys sagevue_new_keys(1) [of s "sagevue_observed systems"]
    by (intro exI [of _ ?N]) (simp add: sagevue_diff_fields(2) sagevue_scan_fields(3))
next
  assume e: "Fusion_Offline_List s = []"
  let ?N = "fusion_offline_new s rooms"
  have keys: "set ?N = set (filter fusion_offline_admitted rooms)"
    using fusion_offline_new_keys(2) [of s rooms] e by simp
  then have "set ?N \<subseteq> set rooms" by auto
  then have stored: "Fusion_Offline_List (fusion_offline_phase rooms s) = ?N"
    unfolding fusion_offline_phase_fields using e by (simp add: remove_loop_id)
  show "\<exists>N. ALERTS_NOTIF_LIST (fusion_offline_phase rooms s) =
              ALERTS_NOTIF_LIST s
              @ map fusion_offline_line (filter (fusion_offline_unmuted (ALERTS_TEMP_IGNORE s)) N)
          \<and> Fusion_Offline_List (fusion_offline_phase rooms s) = N
          \<and> distinct N
          \<and> set N = set (filter fusion_offline_admitted rooms)"
    using keys stored fusion_offline_new_keys(1) [of s rooms]
    by (intro exI [of _ ?N]) (simp add: fusion_offline_phase_fields(2))
qed

theorem empty_previous_all_new_witness:
  "DDM_OFFLINE_LIST hall_state = [] \<and> DDM_ERROR_LIST hall_state = []
   \<and> SageVue_Error_List hall_state = [] \<and> Fusion_Offline_List hall_state = []
   \<and> (\<exists>N. ALERTS_NOTIF_LIST (ddm_thread hall_down hall_state) =
              ALERTS_NOTIF_LIST hall_state
              @ map ddm_line (filter (ddm_unmuted (ALERTS_TEMP_IGNORE hall_state)) N)
          \<and> DDM_ERROR_LIST (ddm_thread hall_down hall_state) = map ddm_key (filter (\<lambda>f. \<not> fst f) N)
          \<and> distinct (DDM_ERROR_LIST (ddm_thread hall_down hall_state))
          \<and> set (DDM_ERROR_LIST (ddm_thread hall_down hall_state)) =
              set (DDM_TEMP_LIST (ddm_thread hall_down hall_state)))
   \<and> (\<exists>N. ALERTS_NOTIF_LIST (fusion_offline_phase lab_rooms hall_state) =
              ALERTS_NOTIF_LIST hall_state
              @ map fusion_offline_line
                  (filter (fusion_offline_unmuted (ALERTS_TEMP_IGNORE hall_state)) N)
          \<and> Fusion_Offline_List (fusion_offline_phase lab_rooms hall_state) = N
          \<and> distinct N
          \<and> set N = set (filter fusion_offline_admitted lab_rooms))
   \<and> DDM_ERROR_LIST (ddm_thread hall_down hall_state) =
       [''Hall - Amp1 has a subscription error.'', ''Hall - Amp1 has a latency error.'']"
proof -
  note T = empty_previous_all_new [of hall_state hall_down atrium lab_rooms]
  have e: "DDM_ERROR_LIST (ddm_thread hall_down hall_state) =
       [''Hall - Amp1 has a subscription error.'', ''Hall - Amp1 has a latency error.'']"
    by (simp add: ddm_thread_hall_down)
  from T hall_state_fields(5,6,8,9) e show ?thesis by blast
qed

subsection \<open>An unchanged fault set\<close>

text \<open>
  C7. When the freshly computed fault set is the stored set, the diff step finds nothing
  new and drops nothing: the stored list is left as it was and no alert is queued.
  Shown for the Dante Domain Manager (both of its lists agreeing with what the cycle
  computed), for SageVue and for the offline rooms of Fusion (where the computed set
  is what the exclusion test admits).
\<close>

theorem same_set_no_change:
  "(set (DDM_TEMP_LIST (ddm_thread query s)) = set (DDM_ERROR_LIST s)
      \<and> set (DDM_TEMP_OFFLINE_LIST (ddm_thread query s)) = set (DDM_OFFLINE_LIST s) \<longrightarrow>
        DDM_ERROR_LIST (ddm_thread query s) = DDM_ERROR_LIST s
      \<and> DDM_OFFLINE_LIST (ddm_thread query s) = DDM_OFFLINE_LIST s
      \<and> ALERTS_NOTIF_LIST (ddm_thread query s) = ALERTS_NOTIF_LIST s)
   \<and> (set (map sagevue_key (filter sagevue_admitted (sagevue_observed systems)))
        = set (SageVue_Error_List s) \<longrightarrow>
        SageVue_Error_List (sagevue_diff systems s) = SageVue_Error_List s
      \<and> ALERTS_NOTIF_LIST (sagevue_diff systems s) = ALERTS_NOTIF_LIST s)
   \<and> (set (filter fusion_offline_admitted rooms) = set (Fusion_Offline_List s) \<longrightarrow>
        Fusion_Offline_List (fusion_offline_phase rooms s) = Fusion_Offline_List s
      \<and> ALERTS_NOTIF_LIST (fusion_offline_phase rooms s) = ALERTS_NOTIF_LIST s)"
proof (intro conjI impI)
  assume a: "set (DDM_TEMP_LIST (ddm_thread query s)) = set (DDM_ERROR_LIST s)
      \<and> set (DDM_TEMP_OFFLINE_LIST (ddm_thread query s)) = set (DDM_OFFLINE_LIST s)"
  let ?N = "ddm_new query s"
  have "set (map ddm_key (filter fst ?N)) = {}"
    using a ddm_new_offline_keys(2) [of query s] by (simp add: ddm_thread_fields)
  then have off: "filter fst ?N = []" by (rule map_filter_empty_set)
  have "set (map ddm_key (filter (\<lambda>f. \<not> fst f) ?N)) = {}"
    using a ddm_new_error_keys(2) [of query s] by (simp add: ddm_thread_fields)
  then have err: "filter (\<lambda>f. \<not> fst f) ?N = []" by (rule map_filter_empty_set)
  from off err have none: "?N = []" by (rule filter_both_empty)
  show "DDM_ERROR_LIST (ddm_thread query s) = DDM_ERROR_LIST s"
    using a by (simp add: ddm_thread_fields ddm_scan_fields(2) err remove_loop_id)
  show "DDM_OFFLINE_LIST (ddm_thread query s) = DDM_OFFLINE_LIST s"
    using a by (simp add: ddm_thread_fields ddm_scan_fields(1) off remove_loop_id)
  show "ALERTS_NOTIF_LIST (ddm_thread query s) = ALERTS_NOTIF_LIST s"
    by (simp add: ddm_thread_fields(5) ddm_scan_fields(5) none)
next
  assume a: "set (map sagevue_key (filter sagevue_admitted (sagevue_observed systems)))
        = set (SageVue_Error_List s)"
  let ?N = "sagevue_new s (sagevue_observed systems)"
  have "set (map sagevue_key ?N) = {}"
    using a sagevue_new_keys(2) [of s "sagevue_observed systems"] by simp
  then have none: "?N = []" by simp
  have sub: "set (SageVue_Error_List s) \<subseteq> set (map sagevue_key (sagevue_observed systems))"
    unfolding a [symmetric] by auto
  show "SageVue_Error_List (sagevue_diff systems s) = SageVue_Error_List s"
    using sub by (simp add: sagevue_diff_fields(1) sagevue_scan_fields(1,2) none remove_loop_id)
  show "ALERTS_NOTIF_LIST (sagevue_diff systems s) = ALERTS_NOTIF_LIST s"
    by (simp add: sagevue_diff_fields(2) sagevue_scan_fields(3) none)
next
  assume a: "set (filter fusion_offline_admitted rooms) = set (Fusion_Offline_List s)"
  have "set (fusion_offline_new s rooms) = {}"
    using a fusion_offline_new_keys(2) [of s rooms] by simp
  then have none: "fusion_offline_new s rooms = []" by simp
  have sub: "set (Fusion_Offline_List s) \<subseteq> set rooms"
    unfolding a [symmetric] by auto
  show "Fusion_Offline_List (fusion_offline_phase rooms s) = Fusion_Offline_List s"
    using sub by (simp add: fusion_offline_phase_fields(1) none remove_loop_id)
  show "ALERTS_NOTIF_LIST (fusion_offline_phase rooms s) = ALERTS_NOTIF_LIST s"
    by (simp add: fusion_offline_phase_fields(2) none)
qed

theorem same_set_no_change_witness:
  "set (DDM_TEMP_LIST (ddm_thread hall_down busy_state)) = set (DDM_ERROR_LIST busy_state)
   \<and> set (DDM_TEMP_OFFLINE_LIST (ddm_thread hall_down busy_state)) = set (DDM_OFFLINE_LIST busy_state)
   \<and> set (map sagevue_key (filter sagevue_admitted (sagevue_observed atrium)))
       = set (SageVue_Error_List busy_state)
   \<and> set (filter fusion_offline_admitted lab_rooms) = set (Fusion_Offline_List busy_state)
   \<and> DDM_ERROR_LIST (ddm_thread hall_down busy_state) = DDM_ERROR_LIST busy_state
   \<and> DDM_OFFLINE_LIST (ddm_thread hall_down busy_state) = DDM_OFFLINE_LIST busy_state
   \<and> ALERTS_NOTIF_LIST (ddm_thread hall_down busy_state) = ALERTS_NOTIF_LIST busy_state
   \<and> SageVue_Error_List (sagevue_diff atrium busy_state) = SageVue_Error_List busy_state
   \<and> ALERTS_NOTIF_LIST (sagevue_diff atrium busy_state) = ALERTS_NOTIF_LIST busy_state
   \<and> Fusion_Offline_List (fusion_offline_phase lab_rooms busy_state) = Fusion_Offline_List busy_state
   \<and> ALERTS_NOTIF_LIST (fusion_offline_phase lab_rooms busy_state) = ALERTS_NOTIF_LIST busy_state"
proof -
  note T = same_set_no_change [of hall_down busy_state atrium lab_rooms]
  have a: "set (DDM_TEMP_LIST (ddm_thread hall_down busy_state)) = set (DDM_ERROR_LIST busy_state)"
    unfolding ddm_thread_fields(4) ddm_scan_fields(4) busy_state_fields ddm_observed_hall_down
    by (simp add: ddm_key_def)
  have b: "set (DDM_TEMP_OFFLINE_LIST (ddm_thread hall_down busy_state)) =
      set (DDM_OFFLINE_LIST busy_state)"
    unfolding ddm_thread_fields(3) ddm_scan_fields(3) busy_state_fields ddm_observed_hall_down
    by (simp add: ddm_key_def)
  have c: "set (map sagevue_key (filter sagevue_admitted (sagevue_observed atrium)))
       = set (SageVue_Error_List busy_state)"
    by (simp add: sagevue_admitted_atrium sagevue_key_def busy_state_fields)
  have d: "set (filter fusion_offline_admitted lab_rooms) = set (Fusion_Offline_List busy_state)"
    by (simp add: fusion_admitted_lab busy_state_fields)
  from T a b c d show ?thesis by blast
qed

subsection \<open>The SageVue exclusions and the missing-devices gauge\<close>

text \<open>
  C8. In a SageVue cycle whose requests are all answered, the faults handed on as newly
  active (the list \<open>N\<close>) are faults of systems whose status is not "Green" with neither
  "DAN1" nor "NTP" in the message: only their keys are added to the stored error list
  and only their lines are queued, so a cycle that reports nothing but such excluded
  faults adds no key and queues no alert. The missing-devices gauge is the number of
  entries the devices endpoint reports, whatever the systems endpoint answered.
\<close>

theorem sagevue_exclusions:
  assumes "sagevue_session api s = Inr s1"
    and "systems_request api = Inr (Inr systems)"
    and "devices_request api = Inr (Inr errors)"
  shows "Sagevue_Missing_Devices (sage_vue_thread api s) = errors
     \<and> (\<exists>N. set N \<subseteq> set (filter sagevue_admitted (sagevue_observed systems))
          \<and> list_all (\<lambda>f. \<not> py_in ''DAN1'' (snd f) \<and> \<not> py_in ''NTP'' (snd f)) N
          \<and> set (SageVue_Error_List (sage_vue_thread api s))
               \<subseteq> set (SageVue_Error_List s) \<union> set (map sagevue_key N)
          \<and> ALERTS_NOTIF_LIST (sage_vue_thread api s) =
               ALERTS_NOTIF_LIST s
               @ map sagevue_line (filter (sagevue_unmuted (ALERTS_TEMP_IGNORE s)) N))
     \<and> (filter sagevue_admitted (sagevue_observed systems) = [] \<longrightarrow>
          set (SageVue_Error_List (sage_vue_thread api s)) \<subseteq> set (SageVue_Error_List s)
          \<and> ALERTS_NOTIF_LIST (sage_vue_thread api s) = ALERTS_NOTIF_LIST s)"
proof -
  let ?N = "sagevue_new s (sagevue_observed systems)"
  note run = sage_vue_thread_answered [OF assms]
  note same = sagevue_session_lists [OF assms(1)]
  have new: "sagevue_new s1 (sagevue_observed systems) = ?N"
    using same(1) by (rule sagevue_new_cong)
  have N: "set ?N \<subseteq> set (filter sagevue_admitted (sagevue_observed systems))"
    by (rule sagevue_new_keys)
  then have ex: "list_all (\<lambda>f. \<not> py_in ''DAN1'' (snd f) \<and> \<not> py_in ''NTP'' (snd f)) ?N"
    by (auto simp: list_all_iff sagevue_admitted_def)
  have stored: "set (SageVue_Error_List (sage_vue_thread api s))
      \<subseteq> set (SageVue_Error_List s) \<union> set (map sagevue_key ?N)"
    unfolding run using remove_loop_subset [of 0 "SageVue_Error_List (snd (sagevue_scan systems s1))"
        "fst (sagevue_scan systems s1)"]
    by (simp add: sagevue_diff_fields(1) sagevue_scan_fields(2) new same)
  have queued: "ALERTS_NOTIF_LIST (sage_vue_thread api s) =
      ALERTS_NOTIF_LIST s @ map sagevue_line (filter (sagevue_unmuted (ALERTS_TEMP_IGNORE s)) ?N)"
    unfolding run by (simp add: sagevue_diff_fields(2) sagevue_scan_fields(3) new same)
  have gauge: "Sagevue_Missing_Devices (sage_vue_thread api s) = errors"
    unfolding run by simp
  have none: "filter sagevue_admitted (sagevue_observed systems) = [] \<longrightarrow>
          set (SageVue_Error_List (sage_vue_thread api s)) \<subseteq> set (SageVue_Error_List s)
          \<and> ALERTS_NOTIF_LIST (sage_vue_thread api s) = ALERTS_NOTIF_LIST s"
  proof
    assume "filter sagevue_admitted (sagevue_observed systems) = []"
    with N have "?N = []" by simp
    with stored queued
    show "set (SageVue_Error_List (sage_vue_thread api s)) \<subseteq> set (SageVue_Error_List s)
          \<and> ALERTS_NOTIF_LIST (sage_vue_thread api s) = ALERTS_NOTIF_LIST s"
      by simp
  qed
  from gauge N ex stored queued none show ?thesis by blast
qed

theorem sagevue_exclusions_witness:
  "sagevue_session sagevue_up hall_state = Inr hall_state
   \<and> systems_request sagevue_up = Inr (Inr atrium)
   \<and> devices_request sagevue_up = Inr (Inr 4)
   \<and> sagevue_observed atrium = [(''Atrium'', ''DAN1 mute active''), (''Atrium'', ''Fan failure'')]
   \<and> Sagevue_Missing_Devices (sage_vue_thread sagevue_up hall_state) = 4
   \<and> (\<exists>N. set N \<subseteq> set (filter sagevue_admitted (sagevue_observed atrium))
          \<and> list_all (\<lambda>f. \<not> py_in ''DAN1'' (snd f) \<and> \<not> py_in ''NTP'' (snd f)) N
          \<and> set (SageVue_Error_List (sage_vue_thread sagevue_up hall_state))
               \<subseteq> set (SageVue_Error_List hall_state) \<union> set (map sagevue_key N)
          \<and> ALERTS_NOTIF_LIST (sage_vue_thread sagevue_up hall_state) =
               ALERTS_NOTIF_LIST hall_state
               @ map sagevue_line (filter (sagevue_unmuted (ALERTS_TEMP_IGNORE hall_state)) N))"
proof -
  have a: "sagevue_session sagevue_up hall_state = Inr hall_state"
    by (simp add: sagevue_session_def sagevue_up_def)
  have b: "systems_request sagevue_up = Inr (Inr atrium)"
    and c: "devices_request sagevue_up = Inr (Inr 4)"
    by (simp_all add: sagevue_up_def)
  from sagevue_exclusions [OF a b c] a b c sagevue_observed_atrium show ?thesis by blast
qed

subsection \<open>The report reads and does not write\<close>

text \<open>
  C9. A report that returns has sent one message of three sections, SageVue, Dante
  Domain Manager and Fusion in this order, where a backend with no stored fault
  contributes the text "No errors to report."; and whether \<open>run_report\<close> returns or
  raises, the stored fault lists, the pending alerts, the muted keywords and the
  alerting flag are what they were. It returns whenever the webhook answers and every
  stored Fusion room carries a message.
\<close>

theorem run_report_read_only:
  "(\<forall>e s'. run_report post day s = Inl (e, s') \<longrightarrow> s' = s) \<and>
   (\<forall>s'. run_report post day s = Inr s' \<longrightarrow>
      (\<exists>sv dd fu.
         outbox s' = outbox s @
           [\<lparr>channel = SODChannel, head = ''SoD Report - '' @ day,
             body = [craft_report_section ''SageVue'' sv,
                     craft_report_section ''Dante Domain Manager'' dd,
                     craft_report_section ''Fusion'' fu]\<rparr>]
         \<and> (SageVue_Error_List s = [] \<longrightarrow> sv = ''No errors to report.'')
         \<and> (DDM_ERROR_LIST s = [] \<and> DDM_OFFLINE_LIST s = [] \<longrightarrow> dd = ''No errors to report.'')
         \<and> (Fusion_Error_List s = [] \<and> Fusion_Offline_List s = [] \<longrightarrow> fu = ''No errors to report.''))
      \<and> SageVue_Error_List s' = SageVue_Error_List s
      \<and> DDM_ERROR_LIST s' = DDM_ERROR_LIST s
      \<and> DDM_OFFLINE_LIST s' = DDM_OFFLINE_LIST s
      \<and> Fusion_Error_List s' = Fusion_Error_List s
      \<and> Fusion_Offline_List s' = Fusion_Offline_List s
      \<and> Fusion_Help_Request_List s' = Fusion_Help_Request_List s
      \<and> ALERTS_NOTIF_LIST s' = ALERTS_NOTIF_LIST s
      \<and> ALERTS_TEMP_IGNORE s' = ALERTS_TEMP_IGNORE s
      \<and> SEND_ALERTS s' = SEND_ALERTS s) \<and>
   (list_all (\<lambda>room. 2 < length room) (Fusion_Error_List s) \<and> (\<forall>m. \<exists>code. post m = Inr code)
      \<longrightarrow> (\<exists>s'. run_report post day s = Inr s'))"
proof (intro conjI allI impI)
  fix e s' assume "run_report post day s = Inl (e, s')"
  then show "s' = s"
    by (auto simp: run_report_def Let_def split: sum.splits)
next
  fix s' assume r: "run_report post day s = Inr s'"
  then obtain fu where fu: "get_fusion_status_message s = Inr fu"
    and s': "s' = s\<lparr>outbox := outbox s @
               [\<lparr>channel = SODChannel, head = ''SoD Report - '' @ day,
                 body = [craft_report_section ''SageVue'' (get_sage_vue_status_message s),
                         craft_report_section ''Dante Domain Manager'' (get_ddm_status_message s),
                         craft_report_section ''Fusion'' fu]\<rparr>]\<rparr>"
    using run_report_cases [of post day s] by auto
  have "Fusion_Error_List s = [] \<and> Fusion_Offline_List s = [] \<longrightarrow> fu = ''No errors to report.''"
    using fu by (auto simp: get_fusion_status_message_def)
  moreover have "SageVue_Error_List s = [] \<longrightarrow> get_sage_vue_status_message s = ''No errors to report.''"
    by (simp add: get_sage_vue_status_message_def)
  moreover have "DDM_ERROR_LIST s = [] \<and> DDM_OFFLINE_LIST s = [] \<longrightarrow> get_ddm_status_message s = ''No errors to report.''"
    by (simp add: get_ddm_status_message_def)
  ultimately show "\<exists>sv dd fu.
         outbox s' = outbox s @
           [\<lparr>channel = SODChannel, head = ''SoD Report - '' @ day,
             body = [craft_report_section ''SageVue'' sv,
                     craft_report_section ''Dante Domain Manager'' dd,
                     craft_report_section ''Fusion'' fu]\<rparr>]
         \<and> (SageVue_Error_List s = [] \<longrightarrow> sv = ''No errors to report.'')
         \<and> (DDM_ERROR_LIST s = [] \<and> DDM_OFFLINE_LIST s = [] \<longrightarrow> dd = ''No errors to report.'')
         \<and> (Fusion_Error_List s = [] \<and> Fusion_Offline_List s = [] \<longrightarrow> fu = ''No errors to report.'')"
    using s' by (intro exI [of _ "get_sage_vue_status_message s"] exI [of _ "get_ddm_status_message s"] exI [of _ fu]) simp
  show "SageVue_Error_List s' = SageVue_Error_List s" using s' by simp
  show "DDM_ERROR_LIST s' = DDM_ERROR_LIST s" using s' by simp
  show "DDM_OFFLINE_LIST s' = DDM_OFFLINE_LIST s" using s' by simp
  show "Fusion_Error_List s' = Fusion_Error_List s" using s' by simp
  show "Fusion_Offline_List s' = Fusion_Offline_List s" using s' by simp
  show "Fusion_Help_Request_List s' = Fusion_Help_Request_List s" using s' by simp
  show "ALERTS_NOTIF_LIST s' = ALERTS_NOTIF_LIST s" using s' by simp
  show "ALERTS_TEMP_IGNORE s' = ALERTS_TEMP_IGNORE s" using s' by simp
  show "SEND_ALERTS s' = SEND_ALERTS s" using s' by simp
next
  assume a: "list_all (\<lambda>room. 2 < length room) (Fusion_Error_List s) \<and> (\<forall>m. \<exists>code. post m = Inr code)"
  then obtain ls where ls: "fusion_error_lines (Fusion_Error_List s) = Inr ls"
    using fusion_error_lines_total by blast
  then have "\<exists>fu. get_fusion_status_message s = Inr fu"
    by (simp add: get_fusion_status_message_def)
  then obtain fu where fu: "get_fusion_status_message s = Inr fu" ..
  from a obtain code where "post \<lparr>channel = SODChannel, head = ''SoD Report - '' @ day,
                 body = [craft_report_section ''SageVue'' (get_sage_vue_status_message s),
                         craft_report_section ''Dante Domain Manager'' (get_ddm_status_message s),
                         craft_report_section ''Fusion'' fu]\<rparr> = Inr code"
    by blast
  with fu show "\<exists>s'. run_report post day s = Inr s'"
    by (simp add: run_report_def Let_def)
qed

theorem run_report_read_only_witness:
  "run_report (\<lambda>m. Inr 200) ''2024-05-01'' report_state =
     Inr (report_state\<lparr>outbox :=
       [\<lparr>channel = SODChannel, head = ''SoD Report - 2024-05-01'',
         body = [SectionBlock ''#00FF00'' ''--- SageVue --- '' ''No errors to report.'' ''#00FF00'',
                 SectionBlock ''#C107EB'' ''--- Dante Domain Manager --- '' ''Hall - Amp1 is offline.'' ''#C107EB'',
                 SectionBlock ''#C107EB'' ''--- Fusion --- '' ''Room 101 - Projector lamp'' ''#C107EB'']\<rparr>]\<rparr>)
   \<and> ALERTS_NOTIF_LIST report_state = [''DDM - Hall - Amp1 is offline.'']"
  using run_report_read_only [of "\<lambda>m. Inr 200" "''2024-05-01''" report_state]
  by (simp add: run_report_def report_state_def initial_state_def get_sage_vue_status_message_def
      get_ddm_status_message_def get_fusion_status_message_def craft_report_section_def Let_def)

subsection \<open>Muted when it appears, silent ever after\<close>

text \<open>
  C10. Take a key \<open>k\<close> of the offline list of the Dante Domain Manager that the cycle
  reports. If \<open>k\<close> was not stored and every fault reported under it in this cycle has a
  muted keyword in its domain or its text, then the cycle stores \<open>k\<close> and queues no
  alert for it. If \<open>k\<close> was stored already, then the cycle keeps it stored and queues no
  alert for it, whatever the muted keywords are by then. And over any run of later
  cycles, each with its own list of muted keywords (\<open>fst c\<close>) and its own answers
  (\<open>snd c\<close>), a stored key that every one of these cycles reports is stored at the end
  and no alert for it has been queued on the way: a fault that was muted when it
  appeared is never notified while it lasts, also once the mute has expired.
\<close>

theorem muted_at_onset_never_notified:
  "(k \<notin> set (DDM_OFFLINE_LIST s)
      \<and> k \<in> set (DDM_TEMP_OFFLINE_LIST (ddm_thread query s))
      \<and> list_all (\<lambda>f. ddm_key f = k \<longrightarrow> muted (ALERTS_TEMP_IGNORE s) (fst (snd f)) (snd (snd f)))
           (ddm_observed query (DDM_DOMAINS s)) \<longrightarrow>
        k \<in> set (DDM_OFFLINE_LIST (ddm_thread query s))
      \<and> (\<exists>queued. ALERTS_NOTIF_LIST (ddm_thread query s) = ALERTS_NOTIF_LIST s @ queued
            \<and> ''DDM - '' @ k \<notin> set queued))
   \<and> (k \<in> set (DDM_OFFLINE_LIST s)
      \<and> k \<in> set (DDM_TEMP_OFFLINE_LIST (ddm_thread query s)) \<longrightarrow>
        k \<in> set (DDM_OFFLINE_LIST (ddm_thread query s))
      \<and> (\<exists>queued. ALERTS_NOTIF_LIST (ddm_thread query s) = ALERTS_NOTIF_LIST s @ queued
            \<and> ''DDM - '' @ k \<notin> set queued))
   \<and> (k \<in> set (DDM_OFFLINE_LIST s)
      \<and> list_all (\<lambda>c. k \<in> set (map ddm_key (filter fst (ddm_observed (snd c) (DDM_DOMAINS s)))))
           cycles \<longrightarrow>
        k \<in> set (DDM_OFFLINE_LIST
                    (foldl (\<lambda>s c. ddm_thread (snd c) (s\<lparr>ALERTS_TEMP_IGNORE := fst c\<rparr>)) s cycles))
      \<and> (\<exists>queued. ALERTS_NOTIF_LIST
                        (foldl (\<lambda>s c. ddm_thread (snd c) (s\<lparr>ALERTS_TEMP_IGNORE := fst c\<rparr>)) s cycles)
                      = ALERTS_NOTIF_LIST s @ queued
            \<and> ''DDM - '' @ k \<notin> set queued))"
proof -
  let ?Q = "map ddm_line (filter (ddm_unmuted (ALERTS_TEMP_IGNORE s)) (ddm_new query s))"
  have queued: "ALERTS_NOTIF_LIST (ddm_thread query s) = ALERTS_NOTIF_LIST s @ ?Q"
    by (rule ddm_queued)
  have kept: "k \<in> set (DDM_OFFLINE_LIST (ddm_thread query s))"
    if "k \<in> set (DDM_TEMP_OFFLINE_LIST (ddm_thread query s))"
    using that stored_offline_superset by blast
  have onset: "k \<notin> set (DDM_OFFLINE_LIST s)
      \<and> k \<in> set (DDM_TEMP_OFFLINE_LIST (ddm_thread query s))
      \<and> list_all (\<lambda>f. ddm_key f = k \<longrightarrow> muted (ALERTS_TEMP_IGNORE s) (fst (snd f)) (snd (snd f)))
           (ddm_observed query (DDM_DOMAINS s)) \<longrightarrow>
        k \<in> set (DDM_OFFLINE_LIST (ddm_thread query s))
      \<and> (\<exists>queued. ALERTS_NOTIF_LIST (ddm_thread query s) = ALERTS_NOTIF_LIST s @ queued
            \<and> ''DDM - '' @ k \<notin> set queued)"
    using kept queued muted_new_key_silent [of k s query] by blast
  have later: "k \<in> set (DDM_OFFLINE_LIST s)
      \<and> k \<in> set (DDM_TEMP_OFFLINE_LIST (ddm_thread query s)) \<longrightarrow>
        k \<in> set (DDM_OFFLINE_LIST (ddm_thread query s))
      \<and> (\<exists>queued. ALERTS_NOTIF_LIST (ddm_thread query s) = ALERTS_NOTIF_LIST s @ queued
            \<and> ''DDM - '' @ k \<notin> set queued)"
    using kept queued stored_key_stays_silent [of k s query] by blast
  have ever: "k \<in> set (DDM_OFFLINE_LIST s)
      \<and> list_all (\<lambda>c. k \<in> set (map ddm_key (filter fst (ddm_observed (snd c) (DDM_DOMAINS s)))))
           cycles \<longrightarrow>
        k \<in> set (DDM_OFFLINE_LIST
                    (foldl (\<lambda>s c. ddm_thread (snd c) (s\<lparr>ALERTS_TEMP_IGNORE := fst c\<rparr>)) s cycles))
      \<and> (\<exists>queued. ALERTS_NOTIF_LIST
                        (foldl (\<lambda>s c. ddm_thread (snd c) (s\<lparr>ALERTS_TEMP_IGNORE := fst c\<rparr>)) s cycles)
                      = ALERTS_NOTIF_LIST s @ queued
            \<and> ''DDM - '' @ k \<notin> set queued)"
    using stored_key_silent_in_later_cycles [of k s cycles] by blast
  from onset later ever show ?thesis by (intro conjI)
qed

theorem muted_at_onset_never_notified_witness:
  "''Hall - Amp1 is offline.'' \<notin> set (DDM_OFFLINE_LIST muted_state)
   \<and> ''Hall - Amp1 is offline.'' \<in> set (DDM_TEMP_OFFLINE_LIST (ddm_thread hall_down muted_state))
   \<and> list_all (\<lambda>f. ddm_key f = ''Hall - Amp1 is offline.'' \<longrightarrow>
                   muted (ALERTS_TEMP_IGNORE muted_state) (fst (snd f)) (snd (snd f)))
        (ddm_observed hall_down (DDM_DOMAINS muted_state))
   \<and> ''Hall - Amp1 is offline.'' \<in> set (DDM_OFFLINE_LIST (ddm_thread hall_down muted_state))
   \<and> (\<exists>queued. ALERTS_NOTIF_LIST (ddm_thread hall_down muted_state) =
                   ALERTS_NOTIF_LIST muted_state @ queued
               \<and> ''DDM - '' @ ''Hall - Amp1 is offline.'' \<notin> set queued)
   \<and> ALERTS_TEMP_IGNORE expired_state = []
   \<and> ''Hall - Amp1 is offline.'' \<in> set (DDM_OFFLINE_LIST expired_state)
   \<and> ''Hall - Amp1 is offline.'' \<in> set (DDM_TEMP_OFFLINE_LIST (ddm_thread hall_down expired_state))
   \<and> ''Hall - Amp1 is offline.'' \<in> set (DDM_OFFLINE_LIST (ddm_thread hall_down expired_state))
   \<and> (\<exists>queued. ALERTS_NOTIF_LIST (ddm_thread hall_down expired_state) =
                   ALERTS_NOTIF_LIST expired_state @ queued
               \<and> ''DDM - '' @ ''Hall - Amp1 is offline.'' \<notin> set queued)
   \<and> list_all (\<lambda>c. ''Hall - Amp1 is offline.''
                     \<in> set (map ddm_key (filter fst (ddm_observed (snd c) (DDM_DOMAINS expired_state)))))
        [([], hall_down), ([''Projector''], hall_down)]
   \<and> ''Hall - Amp1 is offline.''
        \<in> set (DDM_OFFLINE_LIST
                 (foldl (\<lambda>s c. ddm_thread (snd c) (s\<lparr>ALERTS_TEMP_IGNORE := fst c\<rparr>)) expired_state
                    [([], hall_down), ([''Projector''], hall_down)]))
   \<and> (\<exists>queued. ALERTS_NOTIF_LIST
                   (foldl (\<lambda>s c. ddm_thread (snd c) (s\<lparr>ALERTS_TEMP_IGNORE := fst c\<rparr>)) expired_state
                      [([], hall_down), ([''Projector''], hall_down)])
                 = ALERTS_NOTIF_LIST expired_state @ queued
               \<and> ''DDM - '' @ ''Hall - Amp1 is offline.'' \<notin> set queued)"
proof -
  let ?k = "''Hall - Amp1 is offline.''"
  let ?cs = "[([], hall_down), ([''Projector''], hall_down)]"
  note A = muted_at_onset_never_notified [of ?k muted_state hall_down ?cs]
  note B = muted_at_onset_never_notified [of ?k expired_state hall_down ?cs]
  have a1: "?k \<notin> set (DDM_OFFLINE_LIST muted_state)"
    by (simp add: muted_state_fields)
  have a2: "?k \<in> set (DDM_TEMP_OFFLINE_LIST (ddm_thread hall_down muted_state))"
    unfolding ddm_thread_fields(3) ddm_scan_fields(3) muted_state_fields ddm_observed_hall_down
    by (simp add: ddm_key_def)
  have a3: "list_all (\<lambda>f. ddm_key f = ?k \<longrightarrow>
                muted (ALERTS_TEMP_IGNORE muted_state) (fst (snd f)) (snd (snd f)))
        (ddm_observed hall_down (DDM_DOMAINS muted_state))"
    unfolding muted_state_fields ddm_observed_hall_down
    by (simp add: ddm_key_def muted_def)
  have b0: "ALERTS_TEMP_IGNORE expired_state = []"
    by (rule expired_state_fields)
  have b1: "?k \<in> set (DDM_OFFLINE_LIST expired_state)"
    by (simp add: expired_state_fields)
  have b2: "?k \<in> set (DDM_TEMP_OFFLINE_LIST (ddm_thread hall_down expired_state))"
    unfolding ddm_thread_fields(3) ddm_scan_fields(3) expired_state_fields ddm_observed_hall_down
    by (simp add: ddm_key_def)
  have b3: "list_all (\<lambda>c. ?k
                     \<in> set (map ddm_key (filter fst (ddm_observed (snd c) (DDM_DOMAINS expired_state)))))
        ?cs"
  proof -
    have "?k \<in> set (map ddm_key (filter fst (ddm_observed hall_down [''Hall''])))"
      unfolding ddm_observed_hall_down by (simp add: ddm_key_def)
    then show ?thesis
      unfolding expired_state_fields by simp
  qed
  from a1 a2 a3 have "?k \<notin> set (DDM_OFFLINE_LIST muted_state)
      \<and> ?k \<in> set (DDM_TEMP_OFFLINE_LIST (ddm_thread hall_down muted_state))
      \<and> list_all (\<lambda>f. ddm_key f = ?k \<longrightarrow>
                muted (ALERTS_TEMP_IGNORE muted_state) (fst (snd f)) (snd (snd f)))
           (ddm_observed hall_down (DDM_DOMAINS muted_state))"
    by (intro conjI)
  with A [THEN conjunct1] have ca: "?k \<in> set (DDM_OFFLINE_LIST (ddm_thread hall_down muted_state))
      \<and> (\<exists>queued. ALERTS_NOTIF_LIST (ddm_thread hall_down muted_state) =
                   ALERTS_NOTIF_LIST muted_state @ queued
               \<and> ''DDM - '' @ ?k \<notin> set queued)"
    by (rule mp)
  from b1 b2 have "?k \<in> set (DDM_OFFLINE_LIST expired_state)
      \<and> ?k \<in> set (DDM_TEMP_OFFLINE_LIST (ddm_thread hall_down expired_state))"
    by (intro conjI)
  with B [THEN conjunct2, THEN conjunct1]
  have cb: "?k \<in> set (DDM_OFFLINE_LIST (ddm_thread hall_down expired_state))
      \<and> (\<exists>queued. ALERTS_NOTIF_LIST (ddm_thread hall_down expired_state) =
                   ALERTS_NOTIF_LIST expired_state @ queued
               \<and> ''DDM - '' @ ?k \<notin> set queued)"
    by (rule mp)
  from b1 b3 have "?k \<in> set (DDM_OFFLINE_LIST expired_state)
      \<and> list_all (\<lambda>c. ?k
                     \<in> set (map ddm_key (filter fst (ddm_observed (snd c) (DDM_DOMAINS expired_state)))))
        ?cs"
    by (intro conjI)
  with B [THEN conjunct2, THEN conjunct2]
  have cc: "?k \<in> set (DDM_OFFLINE_LIST
                 (foldl (\<lambda>s c. ddm_thread (snd c) (s\<lparr>ALERTS_TEMP_IGNORE := fst c\<rparr>)) expired_state ?cs))
      \<and> (\<exists>queued. ALERTS_NOTIF_LIST
                   (foldl (\<lambda>s c. ddm_thread (snd c) (s\<lparr>ALERTS_TEMP_IGNORE := fst c\<rparr>)) expired_state ?cs)
                 = ALERTS_NOTIF_LIST expired_state @ queued
               \<and> ''DDM - '' @ ?k \<notin> set queued)"
    by (rule mp)
  from a1 a2 a3 ca [THEN conjunct1] ca [THEN conjunct2] b0 b1 b2 cb [THEN conjunct1]
    cb [THEN conjunct2] b3 cc [THEN conjunct1] cc [THEN conjunct2]
  show ?thesis by (intro conjI)
qed

end
